theory Spec2Isabelle
  imports Complex_Main
begin

section \<open>Nucleation detection: simulators, detector bank, evaluation harness\<close>

text \<open>
  A shallow embedding of the nucleation-detection core of the repository:
  \<^verbatim>\<open>simulators/phase_transitions.py\<close>, \<^verbatim>\<open>detectors/nucleation_detectors.py\<close> and
  \<^verbatim>\<open>evaluation/harness.py\<close>.

  Numbers. A Python \<^verbatim>\<open>int\<close> is an \<open>int\<close>; lengths, window sizes and array positions
  are \<open>nat\<close>. A NumPy float is a \<open>real option\<close>: \<open>None\<close> is NaN, \<open>Some r\<close> is the
  finite value \<open>r\<close>. Arithmetic is exact: there is no rounding and no overflow, hence
  no infinity; every comparison with NaN is false, as in IEEE 754. Parameters that the
  source takes as floats (thresholds, step size, noise level) are finite reals.

  Exceptions are values: a function that can raise returns \<open>error + 'a\<close>.
\<close>

type_synonym fl = "real option"

datatype error = ValueError | IndexError | KeyError | ZeroDivisionError

subsection \<open>Data model\<close>

datatype TransitionType =
  PITCHFORK | SADDLE_NODE | HOPF | TRANSCRITICAL | NUCLEATION | COMMITMENT

datatype DetectorType =
  VARIANCE_RATIO | VARIANCE_DERIVATIVE | VARIANCE_INFLECTION | ENSEMBLE
  | ROLLING_ZSCORE | CUSUM | CHANGE_POINT

record SimulationConfig =
  transition_type :: TransitionType
  duration :: int
  dt :: real
  noise_level :: real
  transition_fraction :: real
  seed :: "int option"

text \<open>
  \<^verbatim>\<open>SimulationResult\<close>. The field \<^verbatim>\<open>transition_type\<close> of the result is
  \<open>result_type\<close> here (the configuration has a field of the same name).
\<close>

record SimulationResult =
  time :: "real list"
  state :: "fl list"
  control_param :: "real list"
  transition_index :: int
  result_type :: TransitionType
  config :: SimulationConfig
  variance_trajectory :: "fl list"

text \<open>
  \<^verbatim>\<open>DetectionResult\<close>. Of the free-form \<^verbatim>\<open>metadata\<close> dictionary only the
  \<^verbatim>\<open>"votes"\<close> entry of the ensemble is kept (\<open>None\<close> when the key is absent).
\<close>

record DetectionResult =
  detected :: bool
  detection_index :: "int option"
  confidence :: fl
  detector_type :: DetectorType
  signal :: "fl list"
  threshold :: real
  votes :: "nat option"

subsection \<open>Evaluation harness\<close>

text \<open>\<^verbatim>\<open>EvaluationMetrics\<close>: the four counters and the derived ratios.\<close>

record EvaluationMetrics =
  metrics_detector_type :: DetectorType
  true_positives :: nat
  false_positives :: nat
  false_negatives :: nat
  true_negatives :: nat

definition new_metrics :: "DetectorType \<Rightarrow> EvaluationMetrics" where
  "new_metrics dtype =
     \<lparr>metrics_detector_type = dtype, true_positives = 0, false_positives = 0,
      false_negatives = 0, true_negatives = 0\<rparr>"

definition precision :: "EvaluationMetrics \<Rightarrow> real" where
  "precision m =
     (let denom = true_positives m + false_positives m
      in if denom > 0 then real (true_positives m) / real denom else 0)"

definition recall :: "EvaluationMetrics \<Rightarrow> real" where
  "recall m =
     (let denom = true_positives m + false_negatives m
      in if denom > 0 then real (true_positives m) / real denom else 0)"

definition f1_score :: "EvaluationMetrics \<Rightarrow> real" where
  "f1_score m =
     (let p = precision m; r = recall m
      in if p + r > 0 then 2 * p * r / (p + r) else 0)"

definition accuracy :: "EvaluationMetrics \<Rightarrow> real" where
  "accuracy m =
     (let total = true_positives m + false_positives m + true_negatives m + false_negatives m
      in if total > 0 then real (true_positives m + true_negatives m) / real total else 0)"

text \<open>
  The working state \<^verbatim>\<open>run_experiment\<close> keeps for one detector type: its metrics object
  and its entries of the dictionaries \<^verbatim>\<open>detection_errors\<close>, \<^verbatim>\<open>confidences\<close> and
  \<^verbatim>\<open>per_type_errors\<close>. Run times and the aggregate statistics computed after the
  loop (means, standard deviations, correlation) are not part of the model.
\<close>

record tally =
  metrics :: EvaluationMetrics
  detection_errors :: "int list"
  confidences :: "(fl \<times> bool) list"
  per_type_errors :: "TransitionType \<Rightarrow> int list"

definition new_tally :: "DetectorType \<Rightarrow> tally" where
  "new_tally dtype =
     \<lparr>metrics = new_metrics dtype, detection_errors = [], confidences = [],
      per_type_errors = (\<lambda>_. [])\<rparr>"

text \<open>One entry of \<^verbatim>\<open>sim_result["detections"]\<close> and one element of \<^verbatim>\<open>detailed_results\<close>.\<close>

record detection_entry =
  entry_detected :: bool
  entry_index :: "int option"
  entry_confidence :: fl
  entry_error :: "int option"

record sim_record =
  simulation_id :: nat
  record_type :: TransitionType
  true_transition_index :: int
  record_duration :: int
  record_noise_level :: real
  detections :: "(DetectorType \<times> detection_entry) list"

text \<open>A Python dictionary that keeps insertion order: assigning to a key.\<close>

fun dict_set :: "('k \<times> 'v) list \<Rightarrow> 'k \<Rightarrow> 'v \<Rightarrow> ('k \<times> 'v) list" where
  "dict_set [] k v = [(k, v)]"
| "dict_set ((k', v') # kvs) k v =
     (if k' = k then (k, v) # kvs else (k', v') # dict_set kvs k v)"

text \<open>
  The three-way classification of lines 224 to 240 of \<^verbatim>\<open>harness.py\<close>: a detection that
  fired with an index is a true positive when \<^verbatim>\<open>abs(error) <= detection_tolerance\<close>,
  a false positive otherwise; a detection that did not fire is a false negative.
\<close>

datatype outcome = TruePositive int | FalsePositive | FalseNegative

definition classify :: "int \<Rightarrow> int \<Rightarrow> DetectionResult \<Rightarrow> outcome" where
  "classify tolerance true_index detection =
     (case detection_index detection of
        Some idx \<Rightarrow>
          if detected detection then
            (let err = idx - true_index;
                 within_tolerance = (\<bar>err\<bar> \<le> tolerance)
             in if within_tolerance then TruePositive err else FalsePositive)
          else FalseNegative
      | None \<Rightarrow> FalseNegative)"

definition score_detection :: "int \<Rightarrow> SimulationResult \<Rightarrow> DetectionResult \<Rightarrow> tally \<Rightarrow> tally" where
  "score_detection tolerance sim detection t =
     (case classify tolerance (transition_index sim) detection of
        TruePositive err \<Rightarrow>
          t\<lparr>metrics := (metrics t)\<lparr>true_positives := true_positives (metrics t) + 1\<rparr>,
            detection_errors := detection_errors t @ [err],
            per_type_errors := (per_type_errors t)
               (result_type sim := per_type_errors t (result_type sim) @ [err]),
            confidences := confidences t @ [(confidence detection, True)]\<rparr>
      | FalsePositive \<Rightarrow>
          t\<lparr>metrics := (metrics t)\<lparr>false_positives := false_positives (metrics t) + 1\<rparr>,
            confidences := confidences t @ [(confidence detection, False)]\<rparr>
      | FalseNegative \<Rightarrow>
          t\<lparr>metrics := (metrics t)\<lparr>false_negatives := false_negatives (metrics t) + 1\<rparr>,
            confidences := confidences t @ [(Some 0, False)]\<rparr>)"

text \<open>
  The \<^verbatim>\<open>"error"\<close> field of a detailed record:
  \<^verbatim>\<open>detection.detection_index - sim.transition_index if detection.detection_index else None\<close>.
  The condition is Python truthiness: \<^verbatim>\<open>None\<close> and \<^verbatim>\<open>0\<close> are both false.
\<close>

definition record_error :: "int option \<Rightarrow> int \<Rightarrow> int option" where
  "record_error idx true_index =
     (case idx of
        None \<Rightarrow> None
      | Some i \<Rightarrow> if i \<noteq> 0 then Some (i - true_index) else None)"

definition detail_entry :: "SimulationResult \<Rightarrow> DetectionResult \<Rightarrow> detection_entry" where
  "detail_entry sim detection =
     \<lparr>entry_detected = detected detection,
      entry_index = detection_index detection,
      entry_confidence = confidence detection,
      entry_error = record_error (detection_index detection) (transition_index sim)\<rparr>"

text \<open>
  The inner loop \<^verbatim>\<open>for dtype, detector in self.detectors.items()\<close>. The detector's
  \<^verbatim>\<open>detect\<close> method is the parameter \<open>detect_fn\<close>; an exception it raises ends the run.
\<close>

fun evaluate_detectors ::
  "('d \<Rightarrow> fl list \<Rightarrow> error + DetectionResult) \<Rightarrow> int \<Rightarrow> SimulationResult \<Rightarrow>
   (DetectorType \<times> 'd) list \<Rightarrow> (DetectorType \<rightharpoonup> tally) \<Rightarrow>
   (DetectorType \<times> detection_entry) list \<Rightarrow>
   error + ((DetectorType \<rightharpoonup> tally) \<times> (DetectorType \<times> detection_entry) list)" where
  "evaluate_detectors detect_fn tolerance sim [] st entries = Inr (st, entries)"
| "evaluate_detectors detect_fn tolerance sim ((dtype, detector) # rest) st entries =
     (case detect_fn detector (state sim) of
        Inl e \<Rightarrow> Inl e
      | Inr detection \<Rightarrow>
          (case st dtype of
             None \<Rightarrow> Inl KeyError
           | Some t \<Rightarrow>
               evaluate_detectors detect_fn tolerance sim rest
                 (st(dtype \<mapsto> score_detection tolerance sim detection t))
                 (dict_set entries dtype (detail_entry sim detection))))"

text \<open>The outer loop \<^verbatim>\<open>for i, sim in enumerate(dataset)\<close>.\<close>

fun evaluate_dataset ::
  "('d \<Rightarrow> fl list \<Rightarrow> error + DetectionResult) \<Rightarrow> int \<Rightarrow> (DetectorType \<times> 'd) list \<Rightarrow>
   nat \<Rightarrow> SimulationResult list \<Rightarrow> (DetectorType \<rightharpoonup> tally) \<Rightarrow> sim_record list \<Rightarrow>
   error + ((DetectorType \<rightharpoonup> tally) \<times> sim_record list)" where
  "evaluate_dataset detect_fn tolerance detectors i [] st detailed = Inr (st, detailed)"
| "evaluate_dataset detect_fn tolerance detectors i (sim # sims) st detailed =
     (case evaluate_detectors detect_fn tolerance sim detectors st [] of
        Inl e \<Rightarrow> Inl e
      | Inr (st', entries) \<Rightarrow>
          evaluate_dataset detect_fn tolerance detectors (i + 1) sims st'
            (detailed @
             [\<lparr>simulation_id = i, record_type = result_type sim,
               true_transition_index = transition_index sim,
               record_duration = duration (config sim),
               record_noise_level = noise_level (config sim),
               detections = entries\<rparr>]))"

text \<open>
  \<^verbatim>\<open>EvaluationHarness.__init__\<close> fills the dictionary \<^verbatim>\<open>self.detectors\<close> from
  \<^verbatim>\<open>config.detector_types\<close>; \<^verbatim>\<open>run_experiment\<close> creates one metrics object per
  detector type and runs the two loops. The corpus (the value of \<^verbatim>\<open>generate_dataset\<close>)
  is the argument \<open>dataset\<close>; \<open>create\<close> is \<^verbatim>\<open>create_detector\<close> with the configured
  parameters applied.
\<close>

record ExperimentResult =
  result_metrics :: "DetectorType \<rightharpoonup> EvaluationMetrics"
  detailed_results :: "sim_record list"

fun init_detectors :: "(DetectorType \<Rightarrow> 'd) \<Rightarrow> DetectorType list \<Rightarrow>
    (DetectorType \<times> 'd) list \<Rightarrow> (DetectorType \<times> 'd) list" where
  "init_detectors create [] ds = ds"
| "init_detectors create (dtype # rest) ds =
     init_detectors create rest (dict_set ds dtype (create dtype))"

definition init_tallies :: "DetectorType list \<Rightarrow> (DetectorType \<rightharpoonup> tally)" where
  "init_tallies detector_types =
     (\<lambda>dtype. if dtype \<in> set detector_types then Some (new_tally dtype) else None)"

definition run_experiment ::
  "(DetectorType \<Rightarrow> 'd) \<Rightarrow> ('d \<Rightarrow> fl list \<Rightarrow> error + DetectionResult) \<Rightarrow>
   DetectorType list \<Rightarrow> int \<Rightarrow> SimulationResult list \<Rightarrow> error + ExperimentResult" where
  "run_experiment create detect_fn detector_types detection_tolerance dataset =
     (case evaluate_dataset detect_fn detection_tolerance
             (init_detectors create detector_types []) 0 dataset
             (init_tallies detector_types) [] of
        Inl e \<Rightarrow> Inl e
      | Inr (st, detailed) \<Rightarrow>
          Inr \<lparr>result_metrics = (\<lambda>dtype. map_option metrics (st dtype)),
               detailed_results = detailed\<rparr>)"


text \<open>
  Invariants of the two loops, used in the proofs below: an entry of a detailed record
  carries the error computed by \<open>record_error\<close> from its own index; and the relation
  between the tallies of two runs that differ only in the tolerance.
\<close>

definition entry_ok :: "int \<Rightarrow> detection_entry \<Rightarrow> bool" where
  "entry_ok true_index e = (entry_error e = record_error (entry_index e) true_index)"

definition record_ok :: "sim_record \<Rightarrow> bool" where
  "record_ok r = (\<forall>p \<in> set (detections r). entry_ok (true_transition_index r) (snd p))"

definition tally_le :: "tally \<Rightarrow> tally \<Rightarrow> bool" where
  "tally_le t1 t2 =
     (true_positives (metrics t1) \<le> true_positives (metrics t2) \<and>
      true_positives (metrics t1) + false_positives (metrics t1) =
        true_positives (metrics t2) + false_positives (metrics t2) \<and>
      false_negatives (metrics t1) = false_negatives (metrics t2))"

text \<open>
  The three classes of claim C8 in the words of the specification, stated on the
  detection result alone: a pair fired within tolerance when the detector reports a
  detection with an index at distance at most \<open>T\<close> from the true transition index; it
  fired outside tolerance when the detector reports a detection with an index farther
  away; it did not fire otherwise. \<open>count_pairs\<close> counts the simulations of a corpus
  whose detection, by a given detector, falls in a class.
\<close>

definition fired_within_tolerance :: "int \<Rightarrow> SimulationResult \<Rightarrow> DetectionResult \<Rightarrow> bool" where
  "fired_within_tolerance tol sim d =
     (detected d \<and>
      (case detection_index d of
         Some idx \<Rightarrow> \<bar>idx - transition_index sim\<bar> \<le> tol
       | None \<Rightarrow> False))"

definition fired_outside_tolerance :: "int \<Rightarrow> SimulationResult \<Rightarrow> DetectionResult \<Rightarrow> bool" where
  "fired_outside_tolerance tol sim d =
     (detected d \<and>
      (case detection_index d of
         Some idx \<Rightarrow> tol < \<bar>idx - transition_index sim\<bar>
       | None \<Rightarrow> False))"

definition did_not_fire :: "SimulationResult \<Rightarrow> DetectionResult \<Rightarrow> bool" where
  "did_not_fire sim d = (\<not> (detected d \<and> detection_index d \<noteq> None))"

definition count_pairs ::
  "(SimulationResult \<Rightarrow> DetectionResult \<Rightarrow> bool) \<Rightarrow>
   ('d \<Rightarrow> fl list \<Rightarrow> error + DetectionResult) \<Rightarrow> 'd \<Rightarrow> SimulationResult list \<Rightarrow> nat" where
  "count_pairs cls detect_fn detector dataset =
     length (filter (\<lambda>sim. case detect_fn detector (state sim) of
                             Inr d \<Rightarrow> cls sim d
                           | Inl e \<Rightarrow> False) dataset)"

text \<open>
  A small corpus for concrete runs of the harness: detectors that return a fixed result
  (one fires at index 0, one at index 95, one at index 300, the others do not fire) and
  one simulation whose transition is at index 100.
\<close>

definition fixed_detection :: "bool \<Rightarrow> int option \<Rightarrow> DetectionResult" where
  "fixed_detection fired idx =
     \<lparr>detected = fired, detection_index = idx, confidence = Some (1 / 2),
      detector_type = CUSUM, signal = [], threshold = 4, votes = None\<rparr>"

definition fixed_create :: "DetectorType \<Rightarrow> DetectionResult" where
  "fixed_create dtype =
     (if dtype = VARIANCE_RATIO then fixed_detection True (Some 0)
      else if dtype = CUSUM then fixed_detection True (Some 95)
      else if dtype = CHANGE_POINT then fixed_detection True (Some 300)
      else fixed_detection False None)"

definition fixed_detect :: "DetectionResult \<Rightarrow> fl list \<Rightarrow> error + DetectionResult" where
  "fixed_detect d sig = Inr d"

definition fixed_sim :: SimulationResult where
  "fixed_sim =
     \<lparr>time = [], state = [], control_param = [], transition_index = 100,
      result_type = PITCHFORK,
      config = \<lparr>transition_type = PITCHFORK, duration = 1000, dt = 1 / 100,
                noise_level = 1 / 10, transition_fraction = 3 / 5, seed = Some 42\<rparr>,
      variance_trajectory = []\<rparr>"

definition fixed_types :: "DetectorType list" where
  "fixed_types = [VARIANCE_RATIO, CUSUM, CHANGE_POINT, ENSEMBLE]"

definition fixed_entry :: "bool \<Rightarrow> int option \<Rightarrow> detection_entry" where
  "fixed_entry fired idx = detail_entry fixed_sim (fixed_detection fired idx)"

definition fixed_record :: sim_record where
  "fixed_record =
     \<lparr>simulation_id = 0, record_type = PITCHFORK, true_transition_index = 100,
      record_duration = 1000, record_noise_level = 1 / 10,
      detections =
        [(VARIANCE_RATIO, fixed_entry True (Some 0)), (CUSUM, fixed_entry True (Some 95)),
         (CHANGE_POINT, fixed_entry True (Some 300)), (ENSEMBLE, fixed_entry False None)]\<rparr>"

definition fixed_tallies :: "int \<Rightarrow> (DetectorType \<rightharpoonup> tally)" where
  "fixed_tallies tol =
     (init_tallies fixed_types)
       (VARIANCE_RATIO \<mapsto>
          score_detection tol fixed_sim (fixed_detection True (Some 0)) (new_tally VARIANCE_RATIO),
        CUSUM \<mapsto>
          score_detection tol fixed_sim (fixed_detection True (Some 95)) (new_tally CUSUM),
        CHANGE_POINT \<mapsto>
          score_detection tol fixed_sim (fixed_detection True (Some 300)) (new_tally CHANGE_POINT),
        ENSEMBLE \<mapsto>
          score_detection tol fixed_sim (fixed_detection False None) (new_tally ENSEMBLE))"

definition fixed_result :: "int \<Rightarrow> ExperimentResult" where
  "fixed_result tol =
     \<lparr>result_metrics = (\<lambda>dtype. map_option metrics (fixed_tallies tol dtype)),
      detailed_results = [fixed_record]\<rparr>"

text \<open>A second simulation, whose transition is at index 300, far from index 95.\<close>

definition far_sim :: SimulationResult where
  "far_sim = fixed_sim\<lparr>transition_index := 300\<rparr>"

subsection \<open>NumPy primitives\<close>

text \<open>
  The array functions of NumPy that the simulators and the detectors call, on lists of
  \<open>fl\<close>. A slice \<^verbatim>\<open>a[i:j]\<close> with \<open>0 \<le> i\<close> and \<open>0 \<le> j\<close> is clipped to the array.
\<close>

definition isnan :: "fl \<Rightarrow> bool" where
  "isnan x = (x = None)"

fun fl_lt :: "fl \<Rightarrow> fl \<Rightarrow> bool" where
  "fl_lt (Some a) (Some b) = (a < b)"
| "fl_lt _ _ = False"

definition fl_gt :: "fl \<Rightarrow> fl \<Rightarrow> bool" where
  "fl_gt a b = fl_lt b a"

fun fl_op2 :: "(real \<Rightarrow> real \<Rightarrow> real) \<Rightarrow> fl \<Rightarrow> fl \<Rightarrow> fl" where
  "fl_op2 f (Some a) (Some b) = Some (f a b)"
| "fl_op2 f _ _ = None"

definition fl_add :: "fl \<Rightarrow> fl \<Rightarrow> fl" where
  "fl_add = fl_op2 (+)"

definition fl_sub :: "fl \<Rightarrow> fl \<Rightarrow> fl" where
  "fl_sub = fl_op2 (-)"

definition fl_mul :: "fl \<Rightarrow> fl \<Rightarrow> fl" where
  "fl_mul = fl_op2 (*)"

text \<open>
  Division. IEEE division by zero gives an infinity or NaN; the model has no infinity and
  gives NaN. The source guards every division whose result decides a branch against a
  zero denominator; only a zero \<^verbatim>\<open>threshold\<close> or a zero sum of ensemble weights
  can reach this case, in a confidence value or a diagnostic trace.
\<close>

fun fl_div :: "fl \<Rightarrow> fl \<Rightarrow> fl" where
  "fl_div (Some a) (Some b) = (if b = 0 then None else Some (a / b))"
| "fl_div _ _ = None"

definition fl_abs :: "fl \<Rightarrow> fl" where
  "fl_abs x = map_option abs x"

definition fl_sqrt :: "fl \<Rightarrow> fl" where
  "fl_sqrt x = map_option sqrt x"

text \<open>\<^verbatim>\<open>np.maximum(a, b)\<close> on scalars: NaN if either argument is NaN.\<close>

definition np_maximum :: "fl \<Rightarrow> fl \<Rightarrow> fl" where
  "np_maximum = fl_op2 max"

text \<open>
  The builtin \<^verbatim>\<open>min(1.0, x)\<close> of Python: \<^verbatim>\<open>x\<close> if \<^verbatim>\<open>x < 1.0\<close>, otherwise \<^verbatim>\<open>1.0\<close>
  (also for NaN, whose comparison is false).
\<close>

definition py_min1 :: "fl \<Rightarrow> fl" where
  "py_min1 x = (if fl_lt x (Some 1) then x else Some 1)"

definition slice :: "'a list \<Rightarrow> nat \<Rightarrow> nat \<Rightarrow> 'a list" where
  "slice xs i j = take (j - i) (drop i xs)"

text \<open>\<^verbatim>\<open>a[~np.isnan(a)]\<close>, as finite values.\<close>

definition valid_values :: "fl list \<Rightarrow> real list" where
  "valid_values xs = List.map_filter id xs"

definition mean_r :: "real list \<Rightarrow> real" where
  "mean_r xs = sum_list xs / real (length xs)"

definition var_r :: "real list \<Rightarrow> real" where
  "var_r xs = (let m = mean_r xs in mean_r (map (\<lambda>x. (x - m)\<^sup>2) xs))"

definition median_r :: "real list \<Rightarrow> real" where
  "median_r xs =
     (let s = sort xs; n = length xs
      in if even n then (s ! (n div 2 - 1) + s ! (n div 2)) / 2 else s ! (n div 2))"

text \<open>
  \<^verbatim>\<open>np.mean\<close>, \<^verbatim>\<open>np.var\<close>, \<^verbatim>\<open>np.std\<close>: NaN on an empty array (with a warning, no
  exception) and on an array that holds a NaN.
\<close>

definition np_mean :: "fl list \<Rightarrow> fl" where
  "np_mean xs = (if xs = [] \<or> (\<exists>x \<in> set xs. isnan x) then None
                 else Some (mean_r (valid_values xs)))"

definition np_var :: "fl list \<Rightarrow> fl" where
  "np_var xs = (if xs = [] \<or> (\<exists>x \<in> set xs. isnan x) then None
                else Some (var_r (valid_values xs)))"

definition np_std :: "fl list \<Rightarrow> fl" where
  "np_std xs = fl_sqrt (np_var xs)"

text \<open>
  \<^verbatim>\<open>np.nanmean\<close>, \<^verbatim>\<open>np.nanmedian\<close>, \<^verbatim>\<open>np.nanstd\<close>: the statistic of the values that
  are not NaN; NaN when there is none.
\<close>

definition np_nanmean :: "fl list \<Rightarrow> fl" where
  "np_nanmean xs = (let v = valid_values xs in if v = [] then None else Some (mean_r v))"

definition np_nanmedian :: "fl list \<Rightarrow> fl" where
  "np_nanmedian xs = (let v = valid_values xs in if v = [] then None else Some (median_r v))"

definition np_nanstd :: "fl list \<Rightarrow> fl" where
  "np_nanstd xs = (let v = valid_values xs in if v = [] then None else Some (sqrt (var_r v)))"

text \<open>
  \<^verbatim>\<open>np.argmax\<close> and \<^verbatim>\<open>np.argmin\<close>: the first position of the extreme value; a NaN
  counts as extreme, so the first NaN wins. Both raise on an empty array; every call in
  the source is on a non-empty array (the value \<open>0\<close> here is never used).
\<close>

fun argmax_from :: "fl list \<Rightarrow> nat \<Rightarrow> nat \<Rightarrow> fl \<Rightarrow> nat" where
  "argmax_from [] i best_i best = best_i"
| "argmax_from (x # xs) i best_i best =
     (if isnan best then best_i
      else if isnan x \<or> fl_gt x best then argmax_from xs (i + 1) i x
      else argmax_from xs (i + 1) best_i best)"

definition argmax :: "fl list \<Rightarrow> nat" where
  "argmax xs = (case xs of [] \<Rightarrow> 0 | x # rest \<Rightarrow> argmax_from rest 1 0 x)"

fun argmin_from :: "fl list \<Rightarrow> nat \<Rightarrow> nat \<Rightarrow> fl \<Rightarrow> nat" where
  "argmin_from [] i best_i best = best_i"
| "argmin_from (x # xs) i best_i best =
     (if isnan best then best_i
      else if isnan x \<or> fl_lt x best then argmin_from xs (i + 1) i x
      else argmin_from xs (i + 1) best_i best)"

definition argmin :: "fl list \<Rightarrow> nat" where
  "argmin xs = (case xs of [] \<Rightarrow> 0 | x # rest \<Rightarrow> argmin_from rest 1 0 x)"

text \<open>\<^verbatim>\<open>np.sum\<close> of products, accumulated in \<open>fl\<close>.\<close>

definition fl_sum :: "fl list \<Rightarrow> fl" where
  "fl_sum xs = foldl fl_add (Some 0) xs"

text \<open>
  \<^verbatim>\<open>np.convolve(a, v, mode='same')\<close>: \<^verbatim>\<open>ValueError\<close> when either array is empty;
  otherwise the middle \<open>max (len a) (len v)\<close> entries of the full convolution, which
  start at offset \<open>(min (len a) (len v) - 1) div 2\<close>.
\<close>

definition convolve_full_at :: "fl list \<Rightarrow> fl list \<Rightarrow> nat \<Rightarrow> fl" where
  "convolve_full_at a v t =
     fl_sum (map (\<lambda>m. fl_mul (a ! (t - m)) (v ! m))
               (filter (\<lambda>m. m \<le> t \<and> t - m < length a) [0..<length v]))"

definition np_convolve_same :: "fl list \<Rightarrow> fl list \<Rightarrow> error + fl list" where
  "np_convolve_same a v =
     (if a = [] \<or> v = [] then Inl ValueError
      else Inr (map (\<lambda>k. convolve_full_at a v (k + (min (length a) (length v) - 1) div 2))
                  [0..<max (length a) (length v)]))"

text \<open>
  \<^verbatim>\<open>np.gradient(f)\<close> for a one-dimensional array with unit spacing: one-sided
  differences at the two ends, central differences inside; \<^verbatim>\<open>ValueError\<close> for fewer
  than two elements.
\<close>

definition np_gradient :: "fl list \<Rightarrow> error + fl list" where
  "np_gradient f =
     (let n = length f
      in if n < 2 then Inl ValueError
         else Inr (map (\<lambda>i. if i = 0 then fl_sub (f ! 1) (f ! 0)
                            else if i = n - 1 then fl_sub (f ! (n - 1)) (f ! (n - 2))
                            else fl_div (fl_sub (f ! (i + 1)) (f ! (i - 1))) (Some 2))
                     [0..<n]))"

text \<open>\<^verbatim>\<open>np.diff\<close>: first differences.\<close>

definition np_diff :: "fl list \<Rightarrow> fl list" where
  "np_diff f = map (\<lambda>i. fl_sub (f ! (i + 1)) (f ! i)) [0..<length f - 1]"

text \<open>
  \<^verbatim>\<open>np.searchsorted(a, key)\<close> (left side): the binary search of NumPy, which is also
  defined on an array that is not sorted.
\<close>

function binsearch_left :: "real list \<Rightarrow> real \<Rightarrow> nat \<Rightarrow> nat \<Rightarrow> nat" where
  "binsearch_left a key min_idx max_idx =
     (if min_idx < max_idx then
        (let mid = min_idx + (max_idx - min_idx) div 2
         in if a ! mid < key then binsearch_left a key (mid + 1) max_idx
            else binsearch_left a key min_idx mid)
      else min_idx)"
  by pat_completeness auto
termination
  by (relation "measure (\<lambda>(a, key, lo, hi). hi - lo)") auto

definition np_searchsorted :: "real list \<Rightarrow> real \<Rightarrow> nat" where
  "np_searchsorted a key = binsearch_left a key 0 (length a)"

text \<open>\<^verbatim>\<open>np.cumsum\<close>.\<close>

fun cumsum_from :: "real \<Rightarrow> real list \<Rightarrow> real list" where
  "cumsum_from acc [] = []"
| "cumsum_from acc (x # xs) = (acc + x) # cumsum_from (acc + x) xs"

definition np_cumsum :: "real list \<Rightarrow> real list" where
  "np_cumsum xs = cumsum_from 0 xs"

subsection \<open>Detector bank: the shared primitives of \<^verbatim>\<open>BaseDetector\<close>\<close>

text \<open>
  \<^verbatim>\<open>compute_rolling_variance\<close>: \<^verbatim>\<open>w = window or self.window\<close> takes the detector's own
  window when the argument is \<^verbatim>\<open>None\<close> or \<^verbatim>\<open>0\<close>; entry \<open>i \<ge> w\<close> is the variance of the
  \<open>w\<close> samples before \<open>i\<close>, the entries before stay NaN.
\<close>

definition compute_rolling_variance :: "nat \<Rightarrow> nat option \<Rightarrow> fl list \<Rightarrow> fl list" where
  "compute_rolling_variance self_window window sig =
     (let w = (case window of None \<Rightarrow> self_window
               | Some k \<Rightarrow> if k = 0 then self_window else k);
          n = length sig
      in map (\<lambda>i. if w \<le> i then np_var (slice sig (i - w) i) else None) [0..<n])"

definition compute_rolling_mean :: "nat \<Rightarrow> nat option \<Rightarrow> fl list \<Rightarrow> fl list" where
  "compute_rolling_mean self_window window sig =
     (let w = (case window of None \<Rightarrow> self_window
               | Some k \<Rightarrow> if k = 0 then self_window else k);
          n = length sig
      in map (\<lambda>i. if w \<le> i then np_mean (slice sig (i - w) i) else None) [0..<n])"

text \<open>
  \<^verbatim>\<open>find_sustained_crossing\<close>. \<open>scan_crossing\<close> is the body of the loop over the
  candidate positions, with its two \<^verbatim>\<open>continue\<close> statements and its \<^verbatim>\<open>return i\<close>;
  \<^verbatim>\<open>check\<close> is an array of booleans, whose mean is the fraction of true entries.
\<close>

fun scan_crossing :: "fl list \<Rightarrow> real \<Rightarrow> string \<Rightarrow> nat \<Rightarrow> nat list \<Rightarrow> nat option" where
  "scan_crossing sig thr direction sustain_count [] = None"
| "scan_crossing sig thr direction sustain_count (i # rest) =
     (if isnan (sig ! i) then scan_crossing sig thr direction sustain_count rest
      else
        (let window = slice sig i (i + sustain_count);
             check = map (\<lambda>x. if direction = ''below'' then fl_lt x (Some thr)
                               else fl_gt x (Some thr)) window
         in if length (filter (\<lambda>x. \<not> isnan x) window) < sustain_count div 2
            then scan_crossing sig thr direction sustain_count rest
            else if fl_gt (np_nanmean (map (\<lambda>b. Some (if b then 1 else 0)) check))
                          (Some (7 / 10))
            then Some i
            else scan_crossing sig thr direction sustain_count rest))"

definition find_sustained_crossing ::
  "fl list \<Rightarrow> real \<Rightarrow> string \<Rightarrow> nat \<Rightarrow> nat \<Rightarrow> nat option" where
  "find_sustained_crossing sig thr direction sustain_count start_idx =
     (let n = length sig
      in scan_crossing sig thr direction sustain_count
           [max start_idx sustain_count ..< n - sustain_count])"

text \<open>
  \<^verbatim>\<open>find_peak\<close>. \<^verbatim>\<open>int(n * frac)\<close> is the floor for the fractions the source uses
  (\<open>0.15\<close> and \<open>0.85\<close>). Both modes fill the NaN entries with the mean of the others.
\<close>

definition find_peak :: "fl list \<Rightarrow> string \<Rightarrow> real \<Rightarrow> real \<Rightarrow> nat option" where
  "find_peak sig mode start_frac end_frac =
     (let n = length sig;
          start = nat \<lfloor>real n * start_frac\<rfloor>;
          end = nat \<lfloor>real n * end_frac\<rfloor>;
          sub = slice sig start end
      in if \<not> (\<exists>x \<in> set sub. \<not> isnan x) then None
         else
           (let fill = np_nanmean sub;
                subsignal = map (\<lambda>x. if isnan x then fill else x) sub;
                idx = (if mode = ''max'' then argmax subsignal else argmin subsignal)
            in Some (start + idx)))"

text \<open>The smallest element of a non-empty list of positions (\<^verbatim>\<open>min(candidates)\<close>).\<close>

fun py_min :: "nat list \<Rightarrow> nat" where
  "py_min [] = 0"
| "py_min (c # cs) = fold min cs c"

text \<open>A result that reports no detection.\<close>

definition no_detection :: "DetectorType \<Rightarrow> fl list \<Rightarrow> real \<Rightarrow> DetectionResult" where
  "no_detection dtype trace thr =
     \<lparr>detected = False, detection_index = None, confidence = Some 0,
      detector_type = dtype, signal = trace, threshold = thr, votes = None\<rparr>"

subsection \<open>\<^verbatim>\<open>VarianceRatioDetector\<close>\<close>

text \<open>
  The ratio of the rolling variance to its trailing baseline (lines 159 to 174). The
  baseline entries the loop does not reach are filled with the median of the defined
  variances, and the baseline is floored at \<open>1e-10\<close>.
\<close>

definition variance_ratio :: "nat \<Rightarrow> nat \<Rightarrow> fl list \<Rightarrow> fl list" where
  "variance_ratio window baseline_window sig =
     (let n = length sig;
          variance = compute_rolling_variance window None sig;
          baseline = map (\<lambda>i. if baseline_window + window \<le> i
                               then np_nanmean (slice variance (i - baseline_window)
                                                  (i - window div 2))
                               else None) [0..<n];
          fill = np_nanmedian (filter (\<lambda>v. \<not> isnan v) variance);
          baseline = map (\<lambda>b. if isnan b then fill else b) baseline;
          baseline = map (\<lambda>b. np_maximum b (Some (1 / 10 ^ 10))) baseline
      in map (\<lambda>i. fl_div (variance ! i) (baseline ! i)) [0..<n])"

text \<open>
  \<^verbatim>\<open>VarianceRatioDetector.detect\<close>. \<^verbatim>\<open>1.0 / self.threshold\<close> is a division of Python
  floats and raises \<^verbatim>\<open>ZeroDivisionError\<close> for a zero threshold.
\<close>

definition VarianceRatioDetector_detect ::
  "nat \<Rightarrow> nat \<Rightarrow> real \<Rightarrow> nat \<Rightarrow> fl list \<Rightarrow> error + DetectionResult" where
  "VarianceRatioDetector_detect window baseline_window thr sustain sig =
     (let ratio = variance_ratio window baseline_window sig;
          idx_low = find_sustained_crossing ratio thr ''below'' sustain baseline_window
      in if thr = 0 then Inl ZeroDivisionError
         else
           (let idx_high = find_sustained_crossing ratio (1 / thr) ''above'' sustain
                             baseline_window;
                candidates = List.map_filter id [idx_low, idx_high]
            in if candidates \<noteq> [] then
                 (let detection_idx = py_min candidates;
                      r = (if \<not> isnan (ratio ! detection_idx) then ratio ! detection_idx
                           else Some 1);
                      conf = fl_abs (fl_sub (Some 1) r)
                  in Inr \<lparr>detected = True, detection_index = Some (int detection_idx),
                          confidence = py_min1 conf, detector_type = VARIANCE_RATIO,
                          signal = ratio, threshold = thr, votes = None\<rparr>)
               else
                 Inr \<lparr>detected = False, detection_index = None,
                      confidence = py_min1 (Some 0), detector_type = VARIANCE_RATIO,
                      signal = ratio, threshold = thr, votes = None\<rparr>))"

subsection \<open>\<^verbatim>\<open>VarianceDerivativeDetector\<close>\<close>

definition variance_derivative :: "nat \<Rightarrow> nat \<Rightarrow> fl list \<Rightarrow> fl list" where
  "variance_derivative window derivative_window sig =
     (let variance = compute_rolling_variance window None sig;
          n = length variance
      in map (\<lambda>i. if derivative_window + window \<le> i then
                     (if isnan (variance ! i) \<or> isnan (variance ! (i - derivative_window))
                      then None
                      else
                        (let mean_var = np_nanmean (slice variance (i - derivative_window)
                                                      (i + 1))
                         in if fl_gt mean_var (Some (1 / 10 ^ 10))
                            then fl_div (fl_sub (variance ! i)
                                           (variance ! (i - derivative_window))) mean_var
                            else None))
                   else None) [0..<n])"

definition VarianceDerivativeDetector_detect ::
  "nat \<Rightarrow> nat \<Rightarrow> real \<Rightarrow> fl list \<Rightarrow> DetectionResult" where
  "VarianceDerivativeDetector_detect window derivative_window thr sig =
     (let derivative = variance_derivative window derivative_window sig;
          abs_deriv = map fl_abs derivative;
          peak_idx = find_peak abs_deriv ''max'' (15 / 100) (85 / 100)
      in case peak_idx of
           Some p \<Rightarrow>
             if \<not> isnan (abs_deriv ! p) then
               (if fl_gt (abs_deriv ! p) (Some thr) then
                  \<lparr>detected = True, detection_index = Some (int p),
                   confidence = py_min1 (fl_div (abs_deriv ! p) (Some thr)),
                   detector_type = VARIANCE_DERIVATIVE, signal = derivative,
                   threshold = thr, votes = None\<rparr>
                else no_detection VARIANCE_DERIVATIVE derivative thr)
             else no_detection VARIANCE_DERIVATIVE derivative thr
         | None \<Rightarrow> no_detection VARIANCE_DERIVATIVE derivative thr)"

subsection \<open>\<^verbatim>\<open>VarianceInflectionDetector\<close>\<close>

text \<open>
  The curvature of the smoothed rolling variance. \<^verbatim>\<open>np.convolve\<close> raises on an empty
  array and \<^verbatim>\<open>np.gradient\<close> on an array of fewer than two elements; with
  \<^verbatim>\<open>mode='same'\<close> the smoothed trace has \<open>max n smooth_window\<close> entries.
\<close>

definition VarianceInflectionDetector_detect ::
  "nat \<Rightarrow> nat \<Rightarrow> real \<Rightarrow> fl list \<Rightarrow> error + DetectionResult" where
  "VarianceInflectionDetector_detect window smooth_window thr sig =
     (let variance = compute_rolling_variance window None sig;
          kernel = replicate smooth_window (fl_div (Some 1) (Some (real smooth_window)));
          fill = np_nanmedian variance;
          valid_var = map (\<lambda>v. if isnan v then fill else v) variance
      in case np_convolve_same valid_var kernel of
           Inl e \<Rightarrow> Inl e
         | Inr smoothed \<Rightarrow>
             (case np_gradient smoothed of
                Inl e \<Rightarrow> Inl e
              | Inr d1 \<Rightarrow>
                  (case np_gradient d1 of
                     Inl e \<Rightarrow> Inl e
                   | Inr d2 \<Rightarrow>
                       (let inflection_signal = map fl_abs d2;
                            peak_idx = find_peak inflection_signal ''max'' (15 / 100) (85 / 100)
                        in case peak_idx of
                             Some p \<Rightarrow>
                               (let score = inflection_signal ! p;
                                    typical = np_nanstd inflection_signal;
                                    normalized_score =
                                      (if fl_gt typical (Some (1 / 10 ^ 10))
                                       then fl_div score typical else Some 0)
                                in if fl_gt normalized_score (Some thr) then
                                     Inr \<lparr>detected = True, detection_index = Some (int p),
                                          confidence =
                                            py_min1 (fl_div normalized_score (Some (thr * 3))),
                                          detector_type = VARIANCE_INFLECTION,
                                          signal = inflection_signal, threshold = thr,
                                          votes = None\<rparr>
                                   else Inr (no_detection VARIANCE_INFLECTION
                                               inflection_signal thr))
                           | None \<Rightarrow>
                               Inr (no_detection VARIANCE_INFLECTION inflection_signal thr)))))"

subsection \<open>\<^verbatim>\<open>RollingZScoreDetector\<close>\<close>

definition rolling_zscore :: "nat \<Rightarrow> nat \<Rightarrow> fl list \<Rightarrow> fl list" where
  "rolling_zscore window zscore_window sig =
     (let variance = compute_rolling_variance window None sig;
          n = length variance
      in map (\<lambda>i. if zscore_window + window \<le> i then
                     (let window_data = slice variance (i - zscore_window) (i - window div 2);
                          valid_data = filter (\<lambda>v. \<not> isnan v) window_data
                      in if length valid_data > 10 then
                           (let mean = np_mean valid_data;
                                std = np_std valid_data
                            in if fl_gt std (Some (1 / 10 ^ 10)) \<and> \<not> isnan (variance ! i)
                               then fl_div (fl_sub (variance ! i) mean) std
                               else None)
                         else None)
                   else None) [0..<n])"

definition RollingZScoreDetector_detect ::
  "nat \<Rightarrow> nat \<Rightarrow> real \<Rightarrow> nat \<Rightarrow> fl list \<Rightarrow> DetectionResult" where
  "RollingZScoreDetector_detect window zscore_window thr sustain sig =
     (let zscore = rolling_zscore window zscore_window sig;
          abs_zscore = map fl_abs zscore;
          detection_idx = find_sustained_crossing abs_zscore thr ''above'' sustain zscore_window
      in case detection_idx of
           Some d \<Rightarrow>
             \<lparr>detected = True, detection_index = Some (int d),
              confidence =
                py_min1 (fl_div (np_nanmean (slice abs_zscore d (d + sustain))) (Some thr)),
              detector_type = ROLLING_ZSCORE, signal = zscore, threshold = thr,
              votes = None\<rparr>
         | None \<Rightarrow> no_detection ROLLING_ZSCORE zscore thr)"

subsection \<open>\<^verbatim>\<open>CUSUMDetector\<close>\<close>

text \<open>
  The builtins \<^verbatim>\<open>max(0, x)\<close> and \<^verbatim>\<open>min(0, x)\<close>, and the two running sums of the loop
  over \<^verbatim>\<open>range(1, len(standardized))\<close>; entry 0 of both arrays stays 0.
\<close>

definition py_max0 :: "fl \<Rightarrow> fl" where
  "py_max0 x = (if fl_gt x (Some 0) then x else Some 0)"

definition py_min0 :: "fl \<Rightarrow> fl" where
  "py_min0 x = (if fl_lt x (Some 0) then x else Some 0)"

fun cusum_pos_from :: "fl \<Rightarrow> real \<Rightarrow> fl list \<Rightarrow> fl list" where
  "cusum_pos_from prev drift [] = []"
| "cusum_pos_from prev drift (s # ss) =
     (let c = py_max0 (fl_sub (fl_add prev s) (Some drift))
      in c # cusum_pos_from c drift ss)"

fun cusum_neg_from :: "fl \<Rightarrow> real \<Rightarrow> fl list \<Rightarrow> fl list" where
  "cusum_neg_from prev drift [] = []"
| "cusum_neg_from prev drift (s # ss) =
     (let c = py_min0 (fl_add (fl_add prev s) (Some drift))
      in c # cusum_neg_from c drift ss)"

definition cusum_abs :: "real \<Rightarrow> fl list \<Rightarrow> fl list" where
  "cusum_abs drift valid_variance =
     (let baseline_n = max 10 (length valid_variance div 3);
          mean = np_mean (take baseline_n valid_variance);
          std = np_std (take baseline_n valid_variance);
          std = (if fl_lt std (Some (1 / 10 ^ 10)) then np_std valid_variance else std);
          std = (if fl_lt std (Some (1 / 10 ^ 10)) then Some 1 else std);
          standardized = map (\<lambda>v. fl_div (fl_sub v mean) std) valid_variance;
          cusum_pos = (case standardized of [] \<Rightarrow> []
                       | s # ss \<Rightarrow> Some 0 # cusum_pos_from (Some 0) drift ss);
          cusum_neg = (case standardized of [] \<Rightarrow> []
                       | s # ss \<Rightarrow> Some 0 # cusum_neg_from (Some 0) drift ss)
      in map (\<lambda>i. np_maximum (cusum_pos ! i) (fl_abs (cusum_neg ! i)))
           [0..<length standardized])"

definition CUSUMDetector_detect :: "nat \<Rightarrow> real \<Rightarrow> real \<Rightarrow> fl list \<Rightarrow> DetectionResult" where
  "CUSUMDetector_detect window drift thr sig =
     (let variance = compute_rolling_variance window None sig;
          n = length variance;
          valid_indices = filter (\<lambda>i. \<not> isnan (variance ! i)) [0..<n]
      in if length valid_indices < 20 then no_detection CUSUM (replicate n None) thr
         else
           (let valid_variance = filter (\<lambda>v. \<not> isnan v) variance;
                cabs = cusum_abs drift valid_variance;
                cusum_combined =
                  map (\<lambda>i. if isnan (variance ! i) then None
                            else cabs ! length (filter (\<lambda>j. j < i) valid_indices)) [0..<n]
            in case List.find (\<lambda>i. fl_gt (cabs ! i) (Some thr)) [0..<length valid_indices] of
                 Some i \<Rightarrow>
                   \<lparr>detected = True, detection_index = Some (int (valid_indices ! i)),
                    confidence = py_min1 (fl_div (cabs ! i) (Some thr)),
                    detector_type = CUSUM, signal = cusum_combined, threshold = thr,
                    votes = None\<rparr>
               | None \<Rightarrow> no_detection CUSUM cusum_combined thr))"

subsection \<open>\<^verbatim>\<open>ChangePointDetector\<close>\<close>

definition change_point_llr :: "nat \<Rightarrow> nat \<Rightarrow> fl list \<Rightarrow> fl list" where
  "change_point_llr window min_segment variance =
     (let n = length variance
      in map (\<lambda>i. if min_segment + window \<le> i \<and> i < n - min_segment then
                     (let left = slice variance window i;
                          right = slice variance i n;
                          left_valid = filter (\<lambda>v. \<not> isnan v) left;
                          right_valid = filter (\<lambda>v. \<not> isnan v) right
                      in if length left_valid < 10 \<or> length right_valid < 10 then Some 0
                         else
                           (let var_left = np_var left_valid;
                                var_right = np_var right_valid;
                                var_all = np_var (filter (\<lambda>v. \<not> isnan v)
                                                    (slice variance window n))
                            in if fl_gt var_all (Some (1 / 10 ^ 10)) then
                                 (let weighted_within =
                                        fl_div
                                          (fl_add
                                             (fl_mul (Some (real (length left_valid))) var_left)
                                             (fl_mul (Some (real (length right_valid))) var_right))
                                          (Some (real (length left_valid + length right_valid)))
                                  in fl_sub (Some 1) (fl_div weighted_within var_all))
                               else Some 0))
                   else Some 0) [0..<n])"

definition ChangePointDetector_detect :: "nat \<Rightarrow> nat \<Rightarrow> real \<Rightarrow> fl list \<Rightarrow> DetectionResult" where
  "ChangePointDetector_detect window min_segment thr sig =
     (let variance = compute_rolling_variance window None sig;
          n = length variance
      in if length (filter (\<lambda>v. \<not> isnan v) variance) < 2 * min_segment
         then no_detection CHANGE_POINT (replicate n (Some 0)) thr
         else
           (let llr = change_point_llr window min_segment variance;
                peak_idx = find_peak llr ''max'' (15 / 100) (85 / 100)
            in case peak_idx of
                 Some p \<Rightarrow>
                   if fl_gt (llr ! p) (Some thr) then
                     \<lparr>detected = True, detection_index = Some (int p),
                      confidence = py_min1 (llr ! p), detector_type = CHANGE_POINT,
                      signal = llr, threshold = thr, votes = None\<rparr>
                   else no_detection CHANGE_POINT llr thr
               | None \<Rightarrow> no_detection CHANGE_POINT llr thr))"

subsection \<open>\<^verbatim>\<open>EnsembleDetector\<close>\<close>

text \<open>
  The weights are a dictionary from detector types to factors, read with
  \<^verbatim>\<open>weights.get(type, 1.0)\<close>.
\<close>

type_synonym weights = "(DetectorType \<times> real) list"

definition default_weights :: weights where
  "default_weights =
     [(VARIANCE_RATIO, 15 / 10), (VARIANCE_DERIVATIVE, 12 / 10), (VARIANCE_INFLECTION, 1),
      (ROLLING_ZSCORE, 8 / 10), (CUSUM, 1), (CHANGE_POINT, 13 / 10)]"

definition weights_get :: "weights \<Rightarrow> DetectorType \<Rightarrow> real" where
  "weights_get ws k = (case map_of ws k of Some w \<Rightarrow> w | None \<Rightarrow> 1)"

text \<open>
  The six base detectors the constructor builds, each with the ensemble's window and its
  own defaults otherwise, run on the signal in order:
  \<^verbatim>\<open>results = [d.detect(signal) for d in self.detectors]\<close>. The first exception ends
  the comprehension.
\<close>

definition ensemble_runs :: "nat \<Rightarrow> fl list \<Rightarrow> (error + DetectionResult) list" where
  "ensemble_runs window sig =
     [VarianceRatioDetector_detect window 80 (4 / 10) 15 sig,
      Inr (VarianceDerivativeDetector_detect window 25 (3 / 10) sig),
      VarianceInflectionDetector_detect window 20 (2 / 10) sig,
      Inr (RollingZScoreDetector_detect window 80 2 10 sig),
      Inr (CUSUMDetector_detect window (3 / 10) 4 sig),
      Inr (ChangePointDetector_detect window 50 (3 / 10) sig)]"

fun collect_results :: "(error + 'a) list \<Rightarrow> error + 'a list" where
  "collect_results [] = Inr []"
| "collect_results (Inl e # rs) = Inl e"
| "collect_results (Inr r # rs) =
     (case collect_results rs of Inl e \<Rightarrow> Inl e | Inr rest \<Rightarrow> Inr (r # rest))"

text \<open>One element of the list \<^verbatim>\<open>detections\<close>: a sub-detector that voted.\<close>

record vote =
  vote_type :: DetectorType
  vote_index :: int
  vote_confidence :: fl
  vote_weight :: real

definition ensemble_votes :: "weights \<Rightarrow> DetectionResult list \<Rightarrow> vote list" where
  "ensemble_votes ws results =
     List.map_filter
       (\<lambda>r. case detection_index r of
               Some idx \<Rightarrow>
                 if detected r then
                   Some \<lparr>vote_type = detector_type r, vote_index = idx,
                         vote_confidence = confidence r,
                         vote_weight = weights_get ws (detector_type r)\<rparr>
                 else None
             | None \<Rightarrow> None)
       results"

text \<open>\<^verbatim>\<open>np.max\<close> of an array without NaN.\<close>

fun np_max :: "fl list \<Rightarrow> fl" where
  "np_max [] = None"
| "np_max (x # xs) = fold (\<lambda>y m. if isnan m then m else if isnan y \<or> fl_gt y m then y else m) xs x"

text \<open>
  The combined diagnostic trace (lines 662 to 672). \<^verbatim>\<open>combined += s * w\<close> needs a
  trace of the length of the input (or of length one, which is broadcast); any other
  length raises \<^verbatim>\<open>ValueError\<close>.
\<close>

fun combine_signals :: "weights \<Rightarrow> DetectionResult list \<Rightarrow> fl list \<Rightarrow> error + fl list" where
  "combine_signals ws [] combined = Inr combined"
| "combine_signals ws (r # rs) combined =
     (if \<exists>x \<in> set (signal r). \<not> isnan x then
        (let s = map (\<lambda>x. if isnan x then Some 0 else x) (signal r);
             smax = np_max (map fl_abs s);
             s = (if fl_gt smax (Some 0) then map (\<lambda>x. fl_div x smax) s else s);
             term = map (\<lambda>x. fl_mul x (Some (weights_get ws (detector_type r)))) s
         in if length term = length combined
            then combine_signals ws rs (map (\<lambda>i. fl_add (combined ! i) (term ! i))
                                          [0..<length combined])
            else if length term = 1
            then combine_signals ws rs (map (\<lambda>c. fl_add c (term ! 0)) combined)
            else Inl ValueError)
      else combine_signals ws rs combined)"

definition EnsembleDetector_detect ::
  "nat \<Rightarrow> real \<Rightarrow> weights option \<Rightarrow> fl list \<Rightarrow> error + DetectionResult" where
  "EnsembleDetector_detect window thr weights_arg sig =
     (let ws = (case weights_arg of None \<Rightarrow> default_weights | Some w \<Rightarrow> w);
          runs = ensemble_runs window sig
      in case collect_results runs of
           Inl e \<Rightarrow> Inl e
         | Inr results \<Rightarrow>
             (let detections = ensemble_votes ws results
              in if detections = [] then
                   Inr \<lparr>detected = False, detection_index = None, confidence = Some 0,
                        detector_type = ENSEMBLE, signal = replicate (length sig) (Some 0),
                        threshold = thr, votes = Some 0\<rparr>
                 else
                   (let vote_fraction = real (length detections) / real (length runs);
                        fired = (vote_fraction \<ge> thr)
                    in if \<not> fired then
                         Inr \<lparr>detected = False, detection_index = None, confidence = Some 0,
                              detector_type = ENSEMBLE,
                              signal = replicate (length sig) (Some 0),
                              threshold = thr, votes = Some (length detections)\<rparr>
                       else
                         (let sorted = sort_key fst
                                         (map (\<lambda>d. (vote_index d, vote_weight d)) detections);
                              sorted_indices = map fst sorted;
                              sorted_weights = map snd sorted;
                              cumsum = np_cumsum sorted_weights;
                              half = last cumsum / 2;
                              median_pos = np_searchsorted cumsum half;
                              detection_idx =
                                sorted_indices ! (min median_pos (length sorted_indices - 1));
                              total_weight = sum_list (map vote_weight detections)
                          in if total_weight = 0 then Inl ZeroDivisionError
                             else
                               (let weighted_conf =
                                      fl_div
                                        (fl_sum (map (\<lambda>d. fl_mul (vote_confidence d)
                                                             (Some (vote_weight d)))
                                                   detections))
                                        (Some total_weight)
                                in case combine_signals ws results
                                          (replicate (length sig) (Some 0)) of
                                     Inl e \<Rightarrow> Inl e
                                   | Inr combined \<Rightarrow>
                                       Inr \<lparr>detected = True,
                                            detection_index = Some detection_idx,
                                            confidence = weighted_conf,
                                            detector_type = ENSEMBLE,
                                            signal = map (\<lambda>c. fl_div c
                                                           (Some (sum_list (map snd ws))))
                                                       combined,
                                            threshold = thr,
                                            votes = Some (length detections)\<rparr>)))))"

subsection \<open>The detector classes and \<^verbatim>\<open>create_detector\<close>\<close>

text \<open>
  A configured detector: the class and the arguments of its constructor, in the order
  of the source (\<^verbatim>\<open>window\<close> first, \<^verbatim>\<open>threshold\<close> where the class has one).
\<close>

datatype detector =
    VarianceRatioDetector nat nat real nat
  | VarianceDerivativeDetector nat nat real
  | VarianceInflectionDetector nat nat real
  | RollingZScoreDetector nat nat real nat
  | CUSUMDetector nat real real
  | ChangePointDetector nat nat real
  | EnsembleDetector nat real "weights option"

fun detect :: "detector \<Rightarrow> fl list \<Rightarrow> error + DetectionResult" where
  "detect (VarianceRatioDetector window baseline_window thr sustain) sig =
     VarianceRatioDetector_detect window baseline_window thr sustain sig"
| "detect (VarianceDerivativeDetector window derivative_window thr) sig =
     Inr (VarianceDerivativeDetector_detect window derivative_window thr sig)"
| "detect (VarianceInflectionDetector window smooth_window thr) sig =
     VarianceInflectionDetector_detect window smooth_window thr sig"
| "detect (RollingZScoreDetector window zscore_window thr sustain) sig =
     Inr (RollingZScoreDetector_detect window zscore_window thr sustain sig)"
| "detect (CUSUMDetector window drift thr) sig =
     Inr (CUSUMDetector_detect window drift thr sig)"
| "detect (ChangePointDetector window min_segment thr) sig =
     Inr (ChangePointDetector_detect window min_segment thr sig)"
| "detect (EnsembleDetector window thr weights_arg) sig =
     EnsembleDetector_detect window thr weights_arg sig"




subsection \<open>Statements about the detectors\<close>

text \<open>The directional test of \<^verbatim>\<open>find_sustained_crossing\<close> on one sample.\<close>

definition crossing_test :: "string \<Rightarrow> real \<Rightarrow> fl \<Rightarrow> bool" where
  "crossing_test direction thr x =
     (if direction = ''below'' then fl_lt x (Some thr) else fl_gt x (Some thr))"

text \<open>
  What the loop of \<^verbatim>\<open>find_sustained_crossing\<close> accepts at position \<open>i\<close>: the sample at
  \<open>i\<close> is not NaN and strictly more than 70 percent of the \<open>sustain_count\<close> samples from
  \<open>i\<close> on pass the test (a NaN sample does not pass).
\<close>

definition sustained_at :: "fl list \<Rightarrow> real \<Rightarrow> string \<Rightarrow> nat \<Rightarrow> nat \<Rightarrow> bool" where
  "sustained_at sig thr direction sustain_count i =
     (\<not> isnan (sig ! i) \<and>
      7 * sustain_count <
        10 * length (filter (crossing_test direction thr) (slice sig i (i + sustain_count))))"

text \<open>
  The sustained crossing as the specification words it: a position \<open>i\<close> that has
  \<open>sustain_count\<close> samples from it on, of which at least 70 percent pass the test, the
  NaN samples being left out of the count; the first such position at or after
  \<open>start_idx\<close>.
\<close>

definition spec_crossing_at :: "fl list \<Rightarrow> real \<Rightarrow> string \<Rightarrow> nat \<Rightarrow> nat \<Rightarrow> bool" where
  "spec_crossing_at sig thr direction sustain_count i =
     (i + sustain_count \<le> length sig \<and>
      (let valid = filter (\<lambda>x. \<not> isnan x) (slice sig i (i + sustain_count))
       in 7 * length valid \<le> 10 * length (filter (crossing_test direction thr) valid)))"

definition spec_sustained_crossing ::
  "fl list \<Rightarrow> real \<Rightarrow> string \<Rightarrow> nat \<Rightarrow> nat \<Rightarrow> nat option" where
  "spec_sustained_crossing sig thr direction sustain_count start_idx =
     List.find (spec_crossing_at sig thr direction sustain_count) [start_idx..<length sig]"

text \<open>
  The signals on which the loop of the code and the wording of the specification are
  compared: no sample from the first searched position on is NaN, and at no searched
  position is the share of passing samples exactly 70 percent.
\<close>

definition passing :: "fl list \<Rightarrow> real \<Rightarrow> string \<Rightarrow> nat \<Rightarrow> nat \<Rightarrow> nat" where
  "passing sig thr direction sustain_count i =
     length (filter (crossing_test direction thr) (slice sig i (i + sustain_count)))"

definition nan_free_from :: "nat \<Rightarrow> fl list \<Rightarrow> bool" where
  "nan_free_from lo sig = list_all (\<lambda>x. \<not> isnan x) (drop lo sig)"

definition no_exact_share :: "fl list \<Rightarrow> real \<Rightarrow> string \<Rightarrow> nat \<Rightarrow> nat \<Rightarrow> bool" where
  "no_exact_share sig thr direction sustain_count lo =
     list_all (\<lambda>i. 10 * passing sig thr direction sustain_count i \<noteq> 7 * sustain_count)
       [lo ..< length sig - sustain_count]"

text \<open>Signals for concrete runs of the detectors.\<close>

definition step_signal :: "fl list" where
  "step_signal = [Some 0, Some 1, Some 1, Some 1, Some 1]"

definition exact_70_signal :: "fl list" where
  "exact_70_signal =
     replicate 10 (Some 5) @ replicate 7 (Some 0) @ replicate 3 (Some 5) @ [Some 5]"

definition nan_signal :: "fl list" where
  "nan_signal = [Some 9, Some 9, Some 0, None, Some 9]"

text \<open>The result of the variance-ratio detector on \<open>step_signal\<close>.\<close>

definition step_result :: DetectionResult where
  "step_result =
     \<lparr>detected = True, detection_index = Some 2, confidence = Some 1,
      detector_type = VARIANCE_RATIO,
      signal = [None, None, Some 2500000000, Some 0, Some 0],
      threshold = 4 / 10, votes = None\<rparr>"













subsection \<open>Simulators\<close>

text \<open>
  The global random generator of NumPy is explicit state: \<open>seed_fn\<close> is
  \<^verbatim>\<open>np.random.seed\<close> (the state it installs for a seed, taken in the range NumPy
  accepts) and \<open>randn_fn\<close> is one call of \<^verbatim>\<open>np.random.randn()\<close>, which returns a sample
  and the next state. Every simulator takes the ambient state and returns the state it
  leaves behind.
\<close>

record 'g np_random =
  seed_fn :: "int \<Rightarrow> 'g"
  randn_fn :: "'g \<Rightarrow> real \<times> 'g"

text \<open>\<^verbatim>\<open>if config.seed is not None: np.random.seed(config.seed)\<close>.\<close>

definition reseed :: "'g np_random \<Rightarrow> SimulationConfig \<Rightarrow> 'g \<Rightarrow> 'g" where
  "reseed R cfg g = (case seed cfg of Some s \<Rightarrow> seed_fn R s | None \<Rightarrow> g)"

text \<open>
  \<^verbatim>\<open>np.sqrt\<close> is NaN below zero, \<^verbatim>\<open>np.clip\<close> keeps NaN, \<^verbatim>\<open>int(x)\<close> truncates
  towards zero, \<^verbatim>\<open>np.linspace(a, b, n)\<close> has \<open>n\<close> equally spaced points.
\<close>

definition np_sqrt :: "real \<Rightarrow> fl" where
  "np_sqrt x = (if x < 0 then None else Some (sqrt x))"

definition np_clip :: "fl \<Rightarrow> real \<Rightarrow> real \<Rightarrow> fl" where
  "np_clip x lo hi = map_option (\<lambda>v. min hi (max lo v)) x"

definition fl_pow :: "fl \<Rightarrow> nat \<Rightarrow> fl" where
  "fl_pow x k = map_option (\<lambda>v. v ^ k) x"

definition py_int :: "real \<Rightarrow> int" where
  "py_int x = (if 0 \<le> x then \<lfloor>x\<rfloor> else \<lceil>x\<rceil>)"

definition np_linspace :: "real \<Rightarrow> real \<Rightarrow> nat \<Rightarrow> real list" where
  "np_linspace a b n =
     (if n = 1 then [a] else map (\<lambda>i. a + real i * ((b - a) / real (n - 1))) [0..<n])"

text \<open>\<^verbatim>\<open>compute_variance_trajectory\<close>: the rolling variance with a trailing window.\<close>

definition compute_variance_trajectory :: "fl list \<Rightarrow> nat \<Rightarrow> fl list" where
  "compute_variance_trajectory xs window =
     (let n = length xs
      in map (\<lambda>i. if window \<le> i then np_var (slice xs (i - window) i) else None) [0..<n])"

text \<open>
  \<^verbatim>\<open>find_transition_index\<close>, for an edge fraction between 0 and 1 (every call uses the
  default \<open>0.1\<close>). \<^verbatim>\<open>np.argmax\<close> raises \<^verbatim>\<open>ValueError\<close> on an empty slice. The result
  is a Python integer: \<^verbatim>\<open>min(peak_idx, n - 1)\<close> is \<open>-1\<close> for an empty trajectory.
\<close>

definition find_transition_index :: "fl list \<Rightarrow> string \<Rightarrow> nat \<Rightarrow> real \<Rightarrow> error + int" where
  "find_transition_index xs method window exclude_edges =
     (let n = length xs;
          start = nat \<lfloor>real n * exclude_edges\<rfloor>;
          end = nat \<lfloor>real n * (1 - exclude_edges)\<rfloor>
      in if method = ''derivative'' then
           (let smooth_window = min 20 (n div 20);
                smoothed =
                  (if smooth_window > 1
                   then np_convolve_same xs
                          (replicate smooth_window
                             (fl_div (Some 1) (Some (real smooth_window))))
                   else Inr xs)
            in case smoothed of
                 Inl e \<Rightarrow> Inl e
               | Inr sm \<Rightarrow>
                   (let derivative = map fl_abs (np_diff sm)
                    in if end > start then
                         (if slice derivative start end = [] then Inl ValueError
                          else Inr (min (int (start + argmax (slice derivative start end)))
                                      (int n - 1)))
                       else Inr (min (int (n div 2)) (int n - 1))))
         else if method = ''variance_peak'' then
           (let var_traj = compute_variance_trajectory xs window
            in if \<not> (\<exists>v \<in> set (slice var_traj start end). \<not> isnan v)
               then Inr (int (n div 2))
               else
                 (let var_in_range =
                        map (\<lambda>i. if i < start \<or> end \<le> i \<or> isnan (var_traj ! i)
                                  then Some 0 else var_traj ! i) [0..<n]
                  in Inr (int (argmax var_in_range))))
         else if method = ''state_threshold'' then
           (let baseline_end = max start (n div 5);
                baseline = take baseline_end xs;
                mean = np_mean baseline;
                std = np_std baseline;
                std = (if fl_lt std (Some (1 / 10 ^ 10))
                       then fl_div (np_std xs) (Some 3) else std);
                thr = fl_mul (Some (25 / 10)) std;
                crossings =
                  filter (\<lambda>k. fl_gt (fl_abs (fl_sub (slice xs start end ! k) mean)) thr)
                    [0..<length (slice xs start end)]
            in if length crossings \<ge> 5 then Inr (int (start + crossings ! 0))
               else if length crossings > 0 then Inr (int (start + crossings ! 0))
               else Inr (int (n div 2)))
         else Inr (int (n div 2)))"

text \<open>
  The common end of the six simulators: the transition index (an exception of
  \<^verbatim>\<open>find_transition_index\<close> ends the call), the rolling variance of the observable
  with the default window 50, and the time axis \<^verbatim>\<open>np.arange(n) * dt\<close>.
\<close>

definition finish_simulation ::
  "SimulationConfig \<Rightarrow> TransitionType \<Rightarrow> fl list \<Rightarrow> real list \<Rightarrow> error + int \<Rightarrow>
   error + SimulationResult" where
  "finish_simulation cfg ttype xs control trans_idx =
     (case trans_idx of
        Inl e \<Rightarrow> Inl e
      | Inr idx \<Rightarrow>
          Inr \<lparr>time = map (\<lambda>i. real i * dt cfg) [0..<length xs],
               state = xs, control_param = control, transition_index = idx,
               result_type = ttype, config = cfg,
               variance_trajectory = compute_variance_trajectory xs 50\<rparr>)"

text \<open>
  The Euler-Maruyama loops \<^verbatim>\<open>for i in range(1, n)\<close>, one per archetype, over the list of
  the indices; each pass draws from the generator and assigns \<^verbatim>\<open>x[i]\<close>.
\<close>

fun pitchfork_steps ::
  "'g np_random \<Rightarrow> SimulationConfig \<Rightarrow> real list \<Rightarrow> nat list \<Rightarrow> fl list \<Rightarrow> 'g \<Rightarrow>
   fl list \<times> 'g" where
  "pitchfork_steps R cfg r [] x g = (x, g)"
| "pitchfork_steps R cfg r (i # rest) x g =
     (let drift = fl_sub (fl_mul (Some (r ! (i - 1))) (x ! (i - 1))) (fl_pow (x ! (i - 1)) 3);
          (z, g') = randn_fn R g;
          diffusion = fl_mul (fl_mul (Some (noise_level cfg)) (np_sqrt (dt cfg))) (Some z)
      in pitchfork_steps R cfg r rest
           (x[i := fl_add (fl_add (x ! (i - 1)) (fl_mul drift (Some (dt cfg)))) diffusion]) g')"

definition simulate_pitchfork ::
  "'g np_random \<Rightarrow> SimulationConfig \<Rightarrow> 'g \<Rightarrow> (error + SimulationResult) \<times> 'g" where
  "simulate_pitchfork R cfg g =
     (let g0 = reseed R cfg g
      in if duration cfg < 0 then (Inl ValueError, g0)
         else
           (let n = nat (duration cfg);
                r = np_linspace (- 1) 1 n;
                (z0, g1) = randn_fn R g0
            in if n = 0 then (Inl IndexError, g1)
               else
                 (let (x, g2) = pitchfork_steps R cfg r [1..<n]
                                  ((replicate n (Some 0))[0 := Some (z0 * (1 / 100))]) g1
                  in (finish_simulation cfg PITCHFORK x r
                        (find_transition_index x ''derivative'' 30 (1 / 10)), g2))))"

fun saddle_node_steps ::
  "'g np_random \<Rightarrow> SimulationConfig \<Rightarrow> real list \<Rightarrow> nat list \<Rightarrow> fl list \<Rightarrow> 'g \<Rightarrow>
   fl list \<times> 'g" where
  "saddle_node_steps R cfg r [] x g = (x, g)"
| "saddle_node_steps R cfg r (i # rest) x g =
     (let drift = fl_add (Some (r ! (i - 1))) (fl_pow (x ! (i - 1)) 2);
          (z, g') = randn_fn R g;
          diffusion = fl_mul (fl_mul (Some (noise_level cfg)) (np_sqrt (dt cfg))) (Some z)
      in saddle_node_steps R cfg r rest
           (x[i := np_clip (fl_add (fl_add (x ! (i - 1)) (fl_mul drift (Some (dt cfg))))
                              diffusion) (- 5) 5]) g')"

definition simulate_saddle_node ::
  "'g np_random \<Rightarrow> SimulationConfig \<Rightarrow> 'g \<Rightarrow> (error + SimulationResult) \<times> 'g" where
  "simulate_saddle_node R cfg g =
     (let g0 = reseed R cfg g
      in if duration cfg < 0 then (Inl ValueError, g0)
         else
           (let n = nat (duration cfg);
                r = np_linspace (- 1) (1 / 10) n;
                (z0, g1) = randn_fn R g0
            in if n = 0 then (Inl IndexError, g1)
               else
                 (let (x, g2) = saddle_node_steps R cfg r [1..<n]
                                  ((replicate n (Some 0))[0 := Some (- 1 + z0 * (1 / 100))]) g1
                  in (finish_simulation cfg SADDLE_NODE x r
                        (find_transition_index x ''derivative'' 30 (1 / 10)), g2))))"

text \<open>
  The Hopf state is complex. A complex sample is NaN as a whole (\<open>None\<close>) once the
  diffusion is NaN; \<^verbatim>\<open>np.abs\<close> is the modulus and \<^verbatim>\<open>np.real\<close> the real part.
\<close>

fun hopf_steps ::
  "'g np_random \<Rightarrow> SimulationConfig \<Rightarrow> real list \<Rightarrow> nat list \<Rightarrow> complex option list \<Rightarrow> 'g \<Rightarrow>
   complex option list \<times> 'g" where
  "hopf_steps R cfg r [] z g = (z, g)"
| "hopf_steps R cfg r (i # rest) z g =
     (let omega = 2;
          drift = map_option
                    (\<lambda>zp. (complex_of_real (r ! (i - 1)) + \<i> * omega
                            - complex_of_real ((cmod zp)\<^sup>2)) * zp) (z ! (i - 1));
          (noise_re, g') = randn_fn R g;
          (noise_im, g'') = randn_fn R g';
          diffusion = map_option
                        (\<lambda>s. complex_of_real s * Complex noise_re noise_im
                              / complex_of_real (sqrt 2))
                        (fl_mul (Some (noise_level cfg)) (np_sqrt (dt cfg)));
          znew = (case (z ! (i - 1), drift, diffusion) of
                    (Some zp, Some dr, Some df) \<Rightarrow> Some (zp + dr * complex_of_real (dt cfg) + df)
                  | _ \<Rightarrow> None)
      in hopf_steps R cfg r rest (z[i := znew]) g'')"

definition simulate_hopf ::
  "'g np_random \<Rightarrow> SimulationConfig \<Rightarrow> 'g \<Rightarrow> (error + SimulationResult) \<times> 'g" where
  "simulate_hopf R cfg g =
     (let g0 = reseed R cfg g
      in if duration cfg < 0 then (Inl ValueError, g0)
         else
           (let n = nat (duration cfg);
                r = np_linspace (- 1 / 2) (1 / 2) n
            in if n = 0 then (Inl IndexError, g0)
               else
                 (let (z, g1) = hopf_steps R cfg r [1..<n]
                                  ((replicate n (Some 0))[0 := Some (Complex (1 / 100) (1 / 100))])
                                  g0;
                      x = map (map_option Re) z
                  in (finish_simulation cfg HOPF x r
                        (find_transition_index (map (map_option cmod) z)
                           ''variance_peak'' 30 (1 / 10)), g1))))"

fun transcritical_steps ::
  "'g np_random \<Rightarrow> SimulationConfig \<Rightarrow> real list \<Rightarrow> nat list \<Rightarrow> fl list \<Rightarrow> 'g \<Rightarrow>
   fl list \<times> 'g" where
  "transcritical_steps R cfg r [] x g = (x, g)"
| "transcritical_steps R cfg r (i # rest) x g =
     (let drift = fl_sub (fl_mul (Some (r ! (i - 1))) (x ! (i - 1))) (fl_pow (x ! (i - 1)) 2);
          (z, g') = randn_fn R g;
          diffusion = fl_mul (fl_mul (Some (noise_level cfg)) (np_sqrt (dt cfg))) (Some z)
      in transcritical_steps R cfg r rest
           (x[i := np_clip (fl_add (fl_add (x ! (i - 1)) (fl_mul drift (Some (dt cfg))))
                              diffusion) (- 3) 3]) g')"

definition simulate_transcritical ::
  "'g np_random \<Rightarrow> SimulationConfig \<Rightarrow> 'g \<Rightarrow> (error + SimulationResult) \<times> 'g" where
  "simulate_transcritical R cfg g =
     (let g0 = reseed R cfg g
      in if duration cfg < 0 then (Inl ValueError, g0)
         else
           (let n = nat (duration cfg);
                r = np_linspace (- 1 / 2) (1 / 2) n
            in if n = 0 then (Inl IndexError, g0)
               else
                 (let (x, g1) = transcritical_steps R cfg r [1..<n]
                                  ((replicate n (Some 0))[0 := Some (1 / 100)]) g0
                  in (finish_simulation cfg TRANSCRITICAL x r
                        (find_transition_index x ''derivative'' 30 (1 / 10)), g1))))"

text \<open>
  Nucleation. \<open>trans_target\<close> is \<^verbatim>\<open>int(n * config.transition_fraction)\<close>, a Python
  integer. After the loop the source reads \<^verbatim>\<open>x[trans_target]\<close>: an index of \<open>n\<close> or more
  (or below \<open>-n\<close>) raises \<^verbatim>\<open>IndexError\<close>, a negative index counts from the end, and the
  corrective pull \<^verbatim>\<open>x[trans_target:] += ...\<close> then adds arrays of different lengths,
  which raises \<^verbatim>\<open>ValueError\<close>.
\<close>

fun nucleation_steps ::
  "'g np_random \<Rightarrow> SimulationConfig \<Rightarrow> nat \<Rightarrow> int \<Rightarrow> nat list \<Rightarrow> fl list \<Rightarrow> 'g \<Rightarrow>
   fl list \<times> 'g" where
  "nucleation_steps R cfg n trans_target [] x g = (x, g)"
| "nucleation_steps R cfg n trans_target (i # rest) x g =
     (let drift = fl_mul (fl_mul (Some (- 4)) (x ! (i - 1)))
                    (fl_sub (fl_pow (x ! (i - 1)) 2) (Some 1));
          drift = fl_add drift (Some (1 / 1000 * (real i / real n)));
          dist_to_trans = real_of_int \<bar>int i - trans_target\<bar> / real n;
          commitment_factor = max (2 / 10) (min 1 (dist_to_trans * 4));
          (z, g') = randn_fn R g;
          diffusion = fl_mul (fl_mul (Some (noise_level cfg * commitment_factor))
                                (np_sqrt (dt cfg))) (Some z)
      in nucleation_steps R cfg n trans_target rest
           (x[i := fl_add (fl_add (x ! (i - 1)) (fl_mul drift (Some (dt cfg)))) diffusion]) g')"

definition simulate_nucleation ::
  "'g np_random \<Rightarrow> SimulationConfig \<Rightarrow> 'g \<Rightarrow> (error + SimulationResult) \<times> 'g" where
  "simulate_nucleation R cfg g =
     (let g0 = reseed R cfg g;
          trans_target = py_int (real_of_int (duration cfg) * transition_fraction cfg)
      in if duration cfg < 0 then (Inl ValueError, g0)
         else
           (let n = nat (duration cfg)
            in if n = 0 then (Inl IndexError, g0)
               else
                 (let (x, g1) = nucleation_steps R cfg n trans_target [1..<n]
                                  ((replicate n (Some 0))[0 := Some (- 1)]) g0
                  in if trans_target \<ge> int n \<or> trans_target < - int n then (Inl IndexError, g1)
                     else if trans_target < 0 then
                       (if fl_lt (x ! nat (int n + trans_target)) (Some 0)
                        then (Inl ValueError, g1)
                        else (finish_simulation cfg NUCLEATION x (np_linspace 0 1 n)
                                (find_transition_index x ''derivative'' 30 (1 / 10)), g1))
                     else
                       (let t = nat trans_target;
                            x = (if fl_lt (x ! t) (Some 0)
                                 then map (\<lambda>i. if t \<le> i
                                            then fl_add (x ! i)
                                                   (Some (3 / 10 * (1 - exp (- real (i - t) / 30))))
                                            else x ! i) [0..<n]
                                 else x)
                        in (finish_simulation cfg NUCLEATION x (np_linspace 0 1 n)
                              (find_transition_index x ''derivative'' 30 (1 / 10)), g1)))))"

text \<open>Commitment: the commitment level is a second array, filled by the same loop.\<close>

fun commitment_steps ::
  "'g np_random \<Rightarrow> SimulationConfig \<Rightarrow> nat \<Rightarrow> nat list \<Rightarrow> fl list \<Rightarrow> real list \<Rightarrow> 'g \<Rightarrow>
   (fl list \<times> real list) \<times> 'g" where
  "commitment_steps R cfg n [] x commitment g = ((x, commitment), g)"
| "commitment_steps R cfg n (i # rest) x commitment g =
     (let c = min 1 (commitment ! (i - 1) + 1 / 1000 + 2 / 1000 * (real i / real n));
          noise_factor = 1 - 85 / 100 * c;
          drift = (if c < 7 / 10 then fl_mul (Some (- 5 / 100)) (x ! (i - 1))
                   else fl_mul (Some (3 / 10)) (fl_sub (Some 1) (x ! (i - 1))));
          (z, g') = randn_fn R g;
          diffusion = fl_mul (fl_mul (Some (noise_level cfg * noise_factor))
                                (np_sqrt (dt cfg))) (Some z)
      in commitment_steps R cfg n rest
           (x[i := fl_add (fl_add (x ! (i - 1)) (fl_mul drift (Some (dt cfg)))) diffusion])
           (commitment[i := c]) g')"

definition simulate_commitment ::
  "'g np_random \<Rightarrow> SimulationConfig \<Rightarrow> 'g \<Rightarrow> (error + SimulationResult) \<times> 'g" where
  "simulate_commitment R cfg g =
     (let g0 = reseed R cfg g
      in if duration cfg < 0 then (Inl ValueError, g0)
         else
           (let n = nat (duration cfg);
                ((x, commitment), g1) =
                  commitment_steps R cfg n [1..<n] (replicate n (Some 0)) (replicate n 0) g0
            in (finish_simulation cfg COMMITMENT x commitment
                  (find_transition_index x ''derivative'' 30 (1 / 10)), g1)))"

text \<open>\<^verbatim>\<open>simulate\<close>: the dispatch on the archetype.\<close>

definition simulate ::
  "'g np_random \<Rightarrow> SimulationConfig \<Rightarrow> 'g \<Rightarrow> (error + SimulationResult) \<times> 'g" where
  "simulate R cfg g =
     (case transition_type cfg of
        PITCHFORK \<Rightarrow> simulate_pitchfork R cfg g
      | SADDLE_NODE \<Rightarrow> simulate_saddle_node R cfg g
      | HOPF \<Rightarrow> simulate_hopf R cfg g
      | TRANSCRITICAL \<Rightarrow> simulate_transcritical R cfg g
      | NUCLEATION \<Rightarrow> simulate_nucleation R cfg g
      | COMMITMENT \<Rightarrow> simulate_commitment R cfg g)"

text \<open>
  A generator and configurations for concrete runs: the generator counts its calls and
  always returns the sample 0.
\<close>

definition counting_random :: "int np_random" where
  "counting_random = \<lparr>seed_fn = (\<lambda>s. s), randn_fn = (\<lambda>g. (0, g + 1))\<rparr>"

definition nucleation_config :: "int \<Rightarrow> real \<Rightarrow> SimulationConfig" where
  "nucleation_config n fraction =
     \<lparr>transition_type = NUCLEATION, duration = n, dt = 1 / 100, noise_level = 1 / 10,
      transition_fraction = fraction, seed = Some 42\<rparr>"


text \<open>
  A generator whose sample is its own state, and an unseeded configuration of one step:
  without a seed the result does depend on the generator state.
\<close>

definition echo_random :: "int np_random" where
  "echo_random = \<lparr>seed_fn = (\<lambda>s. s), randn_fn = (\<lambda>g. (real_of_int g, g + 1))\<rparr>"

definition unseeded_config :: SimulationConfig where
  "unseeded_config =
     \<lparr>transition_type = PITCHFORK, duration = 1, dt = 1 / 100, noise_level = 1 / 10,
      transition_fraction = 6 / 10, seed = None\<rparr>"

section \<open>Properties of the evaluation harness\<close>


lemma dict_set_subset: "set (dict_set d k v) \<subseteq> insert (k, v) (set d)"
  by (induction d) (auto split: if_splits)

lemma dict_set_map_fst:
  "map fst (dict_set d k v) = (if k \<in> set (map fst d) then map fst d else map fst d @ [k])"
  by (induction d) force+

lemma dict_set_keys: "fst ` set (dict_set d k v) = insert k (fst ` set d)"
  using arg_cong [OF dict_set_map_fst [of d k v], of set] by (auto split: if_splits)

lemma dict_set_distinct: "distinct (map fst d) \<Longrightarrow> distinct (map fst (dict_set d k v))"
  by (simp add: dict_set_map_fst)

lemma init_detectors_keys:
  "fst ` set (init_detectors create dts ds) = set dts \<union> fst ` set ds"
  by (induction dts arbitrary: ds) (auto simp: dict_set_keys)

lemma init_detectors_distinct:
  "distinct (map fst ds) \<Longrightarrow> distinct (map fst (init_detectors create dts ds))"
  by (induction dts arbitrary: ds) (auto simp: dict_set_distinct)

lemma evaluate_detectors_entries:
  "evaluate_detectors detect_fn tol sim dets st ents = Inr (st', ents') \<Longrightarrow>
   \<forall>p \<in> set ents. entry_ok (transition_index sim) (snd p) \<Longrightarrow>
   \<forall>p \<in> set ents'. entry_ok (transition_index sim) (snd p)"
proof (induction dets arbitrary: st ents)
  case Nil
  then show ?case by simp
next
  case (Cons a dets)
  obtain dtype d where a: "a = (dtype, d)" by (cases a)
  from Cons.prems(1) a obtain detection t where
    det: "detect_fn d (state sim) = Inr detection" and t: "st dtype = Some t"
    and rec: "evaluate_detectors detect_fn tol sim dets
                 (st(dtype \<mapsto> score_detection tol sim detection t))
                 (dict_set ents dtype (detail_entry sim detection)) = Inr (st', ents')"
    by (auto split: sum.splits option.splits)
  have "\<forall>p \<in> set (dict_set ents dtype (detail_entry sim detection)).
          entry_ok (transition_index sim) (snd p)"
    using Cons.prems(2) dict_set_subset [of ents dtype "detail_entry sim detection"]
    by (auto simp: entry_ok_def detail_entry_def)
  with Cons.IH [OF rec] show ?case by blast
qed

lemma evaluate_dataset_records:
  "evaluate_dataset detect_fn tol dets i sims st detailed = Inr (st', detailed') \<Longrightarrow>
   \<forall>r \<in> set detailed. record_ok r \<Longrightarrow> \<forall>r \<in> set detailed'. record_ok r"
proof (induction sims arbitrary: i st detailed)
  case Nil
  then show ?case by simp
next
  case (Cons sim sims)
  from Cons.prems(1) obtain st1 ents where
    inner: "evaluate_detectors detect_fn tol sim dets st [] = Inr (st1, ents)"
    and rec: "evaluate_dataset detect_fn tol dets (i + 1) sims st1
            (detailed @
             [\<lparr>simulation_id = i, record_type = result_type sim,
               true_transition_index = transition_index sim,
               record_duration = duration (config sim),
               record_noise_level = noise_level (config sim),
               detections = ents\<rparr>]) = Inr (st', detailed')"
    by (auto split: sum.splits prod.splits)
  have "\<forall>p \<in> set ents. entry_ok (transition_index sim) (snd p)"
    using evaluate_detectors_entries [OF inner] by simp
  then have "\<forall>r \<in> set (detailed @
             [\<lparr>simulation_id = i, record_type = result_type sim,
               true_transition_index = transition_index sim,
               record_duration = duration (config sim),
               record_noise_level = noise_level (config sim),
               detections = ents\<rparr>]). record_ok r"
    using Cons.prems(2) by (auto simp: record_ok_def)
  with Cons.IH [OF rec] show ?case by blast
qed

text \<open>
  Claim C10. In the detailed records of \<^verbatim>\<open>run_experiment\<close>, an entry of a detector that
  fired with index 0 has the \<^verbatim>\<open>"error"\<close> field \<^verbatim>\<open>None\<close>; an entry of a detector that fired
  with a non-zero index has the error \<open>index - true_transition_index\<close>.
\<close>

theorem detailed_error_field:
  assumes run: "run_experiment create detect_fn detector_types tol dataset = Inr res"
    and r: "r \<in> set (detailed_results res)"
    and e: "(dtype, e) \<in> set (detections r)"
    and fired: "entry_detected e"
  shows "(entry_index e = Some 0 \<longrightarrow> entry_error e = None) \<and>
         (\<forall>i. entry_index e = Some i \<and> i \<noteq> 0 \<longrightarrow>
              entry_error e = Some (i - true_transition_index r))"
proof -
  from run obtain st where
    "evaluate_dataset detect_fn tol (init_detectors create detector_types []) 0 dataset
        (init_tallies detector_types) [] = Inr (st, detailed_results res)"
    by (auto simp: run_experiment_def split: sum.splits prod.splits)
  from evaluate_dataset_records [OF this] r have "record_ok r" by simp
  with e have "entry_ok (true_transition_index r) e"
    by (auto simp: record_ok_def)
  then show ?thesis by (auto simp: entry_ok_def record_error_def)
qed


lemma init_detectors_values:
  "\<forall>p \<in> set ds. snd p = create (fst p) \<Longrightarrow>
   \<forall>p \<in> set (init_detectors create dts ds). snd p = create (fst p)"
proof (induction dts arbitrary: ds)
  case Nil
  then show ?case by simp
next
  case (Cons dtype dts)
  have "\<forall>p \<in> set (dict_set ds dtype (create dtype)). snd p = create (fst p)"
    using Cons.prems dict_set_subset [of ds dtype "create dtype"] by auto
  from Cons.IH [OF this] show ?case by simp
qed

lemma classes_exclusive:
  "(fired_within_tolerance tol sim d \<and> \<not> fired_outside_tolerance tol sim d \<and> \<not> did_not_fire sim d) \<or>
   (\<not> fired_within_tolerance tol sim d \<and> fired_outside_tolerance tol sim d \<and> \<not> did_not_fire sim d) \<or>
   (\<not> fired_within_tolerance tol sim d \<and> \<not> fired_outside_tolerance tol sim d \<and> did_not_fire sim d)"
  by (auto simp: fired_within_tolerance_def fired_outside_tolerance_def did_not_fire_def
      split: option.splits)

lemma score_detection_counters:
  "true_negatives (metrics (score_detection tol sim d t)) = true_negatives (metrics t)"
  "true_positives (metrics (score_detection tol sim d t)) =
     true_positives (metrics t) + (if fired_within_tolerance tol sim d then 1 else 0)"
  "false_positives (metrics (score_detection tol sim d t)) =
     false_positives (metrics t) + (if fired_outside_tolerance tol sim d then 1 else 0)"
  "false_negatives (metrics (score_detection tol sim d t)) =
     false_negatives (metrics t) + (if did_not_fire sim d then 1 else 0)"
  by (auto simp: score_detection_def classify_def Let_def fired_within_tolerance_def
      fired_outside_tolerance_def did_not_fire_def split: option.splits)

lemma evaluate_detectors_tally:
  "evaluate_detectors detect_fn tol sim dets st ents = Inr (st', ents') \<Longrightarrow>
   distinct (map fst dets) \<Longrightarrow>
   (\<forall>d t. (k, d) \<in> set dets \<and> st k = Some t \<longrightarrow>
      (\<exists>r. detect_fn d (state sim) = Inr r \<and> st' k = Some (score_detection tol sim r t))) \<and>
   (k \<notin> fst ` set dets \<longrightarrow> st' k = st k)"
proof (induction dets arbitrary: st ents)
  case Nil
  then show ?case by simp
next
  case (Cons a dets)
  obtain dtype d where a: "a = (dtype, d)" by (cases a)
  from Cons.prems(1) a obtain detection t where
    det: "detect_fn d (state sim) = Inr detection"
    and t: "st dtype = Some t"
    and rec: "evaluate_detectors detect_fn tol sim dets
                 (st(dtype \<mapsto> score_detection tol sim detection t))
                 (dict_set ents dtype (detail_entry sim detection)) = Inr (st', ents')"
    by (auto split: sum.splits option.splits)
  from Cons.prems(2) a have dist: "distinct (map fst dets)" and fresh: "dtype \<notin> fst ` set dets"
    by auto
  let ?st = "st(dtype \<mapsto> score_detection tol sim detection t)"
  from Cons.IH [OF rec dist]
  have IH1: "\<And>d' t'. (k, d') \<in> set dets \<Longrightarrow> ?st k = Some t' \<Longrightarrow>
      \<exists>r. detect_fn d' (state sim) = Inr r \<and> st' k = Some (score_detection tol sim r t')"
    and IH2: "k \<notin> fst ` set dets \<Longrightarrow> st' k = ?st k"
    by blast+
  show ?case
  proof (cases "k = dtype")
    case True
    with fresh have notin: "k \<notin> fst ` set dets" by simp
    from IH2 [OF notin] True have st': "st' k = Some (score_detection tol sim detection t)"
      by simp
    have "\<exists>r. detect_fn d' (state sim) = Inr r \<and> st' k = Some (score_detection tol sim r t')"
      if h: "(k, d') \<in> set (a # dets)" "st k = Some t'" for d' t'
    proof -
      from notin have "(k, d') \<notin> set dets" by force
      with h(1) a have "d' = d" by simp
      moreover from h(2) t True have "t' = t" by simp
      ultimately show ?thesis using det st' by simp
    qed
    moreover have "k \<in> fst ` set (a # dets)" using True a by simp
    ultimately show ?thesis by blast
  next
    case False
    then have upd: "?st k = st k" by simp
    have "\<exists>r. detect_fn d' (state sim) = Inr r \<and> st' k = Some (score_detection tol sim r t')"
      if h: "(k, d') \<in> set (a # dets)" "st k = Some t'" for d' t'
    proof -
      from h(1) a False have "(k, d') \<in> set dets" by simp
      from IH1 [OF this] upd h(2) show ?thesis by simp
    qed
    moreover have "st' k = st k" if "k \<notin> fst ` set (a # dets)"
    proof -
      from that have "k \<notin> fst ` set dets" by simp
      from IH2 [OF this] upd show ?thesis by simp
    qed
    ultimately show ?thesis by blast
  qed
qed

lemma evaluate_dataset_tally:
  "evaluate_dataset detect_fn tol dets i sims st detailed = Inr (st', detailed') \<Longrightarrow>
   distinct (map fst dets) \<Longrightarrow> (k, d) \<in> set dets \<Longrightarrow> st k = Some t \<Longrightarrow>
   \<exists>t'. st' k = Some t' \<and>
     true_negatives (metrics t') = true_negatives (metrics t) \<and>
     true_positives (metrics t') =
       true_positives (metrics t) + count_pairs (fired_within_tolerance tol) detect_fn d sims \<and>
     false_positives (metrics t') =
       false_positives (metrics t) + count_pairs (fired_outside_tolerance tol) detect_fn d sims \<and>
     false_negatives (metrics t') =
       false_negatives (metrics t) + count_pairs did_not_fire detect_fn d sims"
proof (induction sims arbitrary: i st detailed t)
  case Nil
  then show ?case by (simp add: count_pairs_def)
next
  case (Cons sim sims)
  from Cons.prems(1) obtain st1 ents where
    inner: "evaluate_detectors detect_fn tol sim dets st [] = Inr (st1, ents)"
    and rec: "evaluate_dataset detect_fn tol dets (i + 1) sims st1
            (detailed @
             [\<lparr>simulation_id = i, record_type = result_type sim,
               true_transition_index = transition_index sim,
               record_duration = duration (config sim),
               record_noise_level = noise_level (config sim),
               detections = ents\<rparr>]) = Inr (st', detailed')"
    by (auto split: sum.splits prod.splits)
  from evaluate_detectors_tally [OF inner Cons.prems(2), of k] Cons.prems(3,4)
  obtain r where r: "detect_fn d (state sim) = Inr r"
    and st1: "st1 k = Some (score_detection tol sim r t)"
    by blast
  from Cons.IH [OF rec Cons.prems(2,3) st1] obtain t' where
    "st' k = Some t'"
    "true_negatives (metrics t') = true_negatives (metrics (score_detection tol sim r t))"
    "true_positives (metrics t') =
       true_positives (metrics (score_detection tol sim r t)) +
       count_pairs (fired_within_tolerance tol) detect_fn d sims"
    "false_positives (metrics t') =
       false_positives (metrics (score_detection tol sim r t)) +
       count_pairs (fired_outside_tolerance tol) detect_fn d sims"
    "false_negatives (metrics t') =
       false_negatives (metrics (score_detection tol sim r t)) +
       count_pairs did_not_fire detect_fn d sims"
    by blast
  with r show ?case by (simp add: score_detection_counters count_pairs_def)
qed

lemma count_pairs_total:
  "\<forall>sim \<in> set sims. \<exists>r. detect_fn d (state sim) = Inr r \<Longrightarrow>
   count_pairs (fired_within_tolerance tol) detect_fn d sims +
   count_pairs (fired_outside_tolerance tol) detect_fn d sims +
   count_pairs did_not_fire detect_fn d sims = length sims"
proof (induction sims)
  case Nil
  then show ?case by (simp add: count_pairs_def)
next
  case (Cons sim sims)
  from Cons.prems obtain r where r: "detect_fn d (state sim) = Inr r" by auto
  from Cons have IH: "count_pairs (fired_within_tolerance tol) detect_fn d sims +
     count_pairs (fired_outside_tolerance tol) detect_fn d sims +
     count_pairs did_not_fire detect_fn d sims = length sims" by simp
  from classes_exclusive [of tol sim r] IH r show ?case
    by (auto simp: count_pairs_def)
qed

lemma evaluate_dataset_returns:
  "evaluate_dataset detect_fn tol dets i sims st detailed = Inr (st', detailed') \<Longrightarrow>
   distinct (map fst dets) \<Longrightarrow> (k, d) \<in> set dets \<Longrightarrow> st k = Some t \<Longrightarrow>
   \<forall>sim \<in> set sims. \<exists>r. detect_fn d (state sim) = Inr r"
proof (induction sims arbitrary: i st detailed t)
  case Nil
  then show ?case by simp
next
  case (Cons sim sims)
  from Cons.prems(1) obtain st1 ents where
    inner: "evaluate_detectors detect_fn tol sim dets st [] = Inr (st1, ents)"
    and rec: "evaluate_dataset detect_fn tol dets (i + 1) sims st1
            (detailed @
             [\<lparr>simulation_id = i, record_type = result_type sim,
               true_transition_index = transition_index sim,
               record_duration = duration (config sim),
               record_noise_level = noise_level (config sim),
               detections = ents\<rparr>]) = Inr (st', detailed')"
    by (auto split: sum.splits prod.splits)
  from evaluate_detectors_tally [OF inner Cons.prems(2), of k] Cons.prems(3,4)
  obtain r where r: "detect_fn d (state sim) = Inr r"
    and st1: "st1 k = Some (score_detection tol sim r t)"
    by blast
  from Cons.IH [OF rec Cons.prems(2,3) st1] r show ?case by simp
qed

text \<open>
  Claim C8. After \<^verbatim>\<open>run_experiment\<close> over a corpus of \<open>M\<close> simulations, the metrics of every
  evaluated detector type have \<open>true_negatives = 0\<close> and
  \<open>true_positives + false_positives + false_negatives = M\<close>, because every pair of a
  simulation and the detector is counted in exactly one class: \<open>true_positives\<close> is the
  number of simulations on which the detector fired within tolerance, \<open>false_positives\<close>
  the number on which it fired outside tolerance, and \<open>false_negatives\<close> the number on
  which it did not fire; each detection is in exactly one of the three classes.
\<close>

theorem run_experiment_counts:
  assumes run: "run_experiment create detect_fn detector_types tol dataset = Inr res"
    and dtype: "dtype \<in> set detector_types"
  shows "\<exists>m. result_metrics res dtype = Some m \<and> true_negatives m = 0 \<and>
             true_positives m + false_positives m + false_negatives m = length dataset \<and>
             true_positives m =
               count_pairs (fired_within_tolerance tol) detect_fn (create dtype) dataset \<and>
             false_positives m =
               count_pairs (fired_outside_tolerance tol) detect_fn (create dtype) dataset \<and>
             false_negatives m =
               count_pairs did_not_fire detect_fn (create dtype) dataset \<and>
             (\<forall>sim d. (fired_within_tolerance tol sim d \<and> \<not> fired_outside_tolerance tol sim d \<and>
                        \<not> did_not_fire sim d) \<or>
                      (\<not> fired_within_tolerance tol sim d \<and> fired_outside_tolerance tol sim d \<and>
                        \<not> did_not_fire sim d) \<or>
                      (\<not> fired_within_tolerance tol sim d \<and> \<not> fired_outside_tolerance tol sim d \<and>
                        did_not_fire sim d))"
proof -
  from run obtain st detailed where
    ev: "evaluate_dataset detect_fn tol (init_detectors create detector_types []) 0 dataset
        (init_tallies detector_types) [] = Inr (st, detailed)"
    and res: "result_metrics res = (\<lambda>dtype. map_option metrics (st dtype))"
    by (auto simp: run_experiment_def split: sum.splits prod.splits)
  have dist: "distinct (map fst (init_detectors create detector_types []))"
    by (rule init_detectors_distinct) simp
  have "dtype \<in> fst ` set (init_detectors create detector_types [])"
    using dtype by (simp add: init_detectors_keys)
  then obtain d where d: "(dtype, d) \<in> set (init_detectors create detector_types [])"
    by auto
  have "\<forall>p \<in> set (init_detectors create detector_types []). snd p = create (fst p)"
    by (rule init_detectors_values) simp
  with d have d_eq: "d = create dtype" by auto
  have init: "init_tallies detector_types dtype = Some (new_tally dtype)"
    using dtype by (simp add: init_tallies_def)
  from evaluate_dataset_tally [OF ev dist d init] d_eq obtain t' where t':
    "st dtype = Some t'" "true_negatives (metrics t') = 0"
    "true_positives (metrics t') =
       count_pairs (fired_within_tolerance tol) detect_fn (create dtype) dataset"
    "false_positives (metrics t') =
       count_pairs (fired_outside_tolerance tol) detect_fn (create dtype) dataset"
    "false_negatives (metrics t') =
       count_pairs did_not_fire detect_fn (create dtype) dataset"
    by (auto simp: new_tally_def new_metrics_def)
  from evaluate_dataset_returns [OF ev dist d init] d_eq
  have "\<forall>sim \<in> set dataset. \<exists>r. detect_fn (create dtype) (state sim) = Inr r" by simp
  with count_pairs_total [of dataset detect_fn "create dtype" tol] t'
  have total: "true_positives (metrics t') + false_positives (metrics t') +
      false_negatives (metrics t') = length dataset"
    by simp
  have excl: "\<forall>sim d. (fired_within_tolerance tol sim d \<and> \<not> fired_outside_tolerance tol sim d \<and>
                        \<not> did_not_fire sim d) \<or>
                      (\<not> fired_within_tolerance tol sim d \<and> fired_outside_tolerance tol sim d \<and>
                        \<not> did_not_fire sim d) \<or>
                      (\<not> fired_within_tolerance tol sim d \<and> \<not> fired_outside_tolerance tol sim d \<and>
                        did_not_fire sim d)"
    using classes_exclusive by blast
  have m: "result_metrics res dtype = Some (metrics t')"
    using res t'(1) by simp
  from m t'(2-5) total excl show ?thesis by blast
qed

lemma classify_mono:
  "T1 \<le> T2 \<Longrightarrow> classify T1 ti d = TruePositive e \<Longrightarrow> classify T2 ti d = TruePositive e"
  by (auto simp: classify_def Let_def split: option.splits if_splits)

lemma classify_false_negative:
  "(classify T1 ti d = FalseNegative) = (classify T2 ti d = FalseNegative)"
  by (auto simp: classify_def Let_def split: option.splits if_splits)

lemma score_detection_mono:
  assumes "T1 \<le> T2" "tally_le t1 t2"
  shows "tally_le (score_detection T1 sim d t1) (score_detection T2 sim d t2)"
proof (cases "classify T1 (transition_index sim) d")
  case (TruePositive e)
  with classify_mono [OF assms(1) this] assms(2) show ?thesis
    by (simp add: score_detection_def tally_le_def)
next
  case FalsePositive
  with classify_false_negative [of T1 "transition_index sim" d T2] assms(2) show ?thesis
    by (cases "classify T2 (transition_index sim) d")
       (auto simp: score_detection_def tally_le_def)
next
  case FalseNegative
  with classify_false_negative [of T1 "transition_index sim" d T2] assms(2) show ?thesis
    by (simp add: score_detection_def tally_le_def)
qed

lemma evaluate_detectors_mono:
  "T1 \<le> T2 \<Longrightarrow>
   evaluate_detectors detect_fn T1 sim dets st1 e1 = Inr (st1', e1') \<Longrightarrow>
   \<forall>k. rel_option tally_le (st1 k) (st2 k) \<Longrightarrow>
   \<exists>st2' e2'. evaluate_detectors detect_fn T2 sim dets st2 e2 = Inr (st2', e2') \<and>
      (\<forall>k. rel_option tally_le (st1' k) (st2' k))"
proof (induction dets arbitrary: st1 st2 e1 e2)
  case Nil
  then show ?case by simp
next
  case (Cons a dets)
  obtain dtype d where a: "a = (dtype, d)" by (cases a)
  from Cons.prems(2) a obtain detection t1 where
    det: "detect_fn d (state sim) = Inr detection" and t1: "st1 dtype = Some t1"
    and rec: "evaluate_detectors detect_fn T1 sim dets
                 (st1(dtype \<mapsto> score_detection T1 sim detection t1))
                 (dict_set e1 dtype (detail_entry sim detection)) = Inr (st1', e1')"
    by (auto split: sum.splits option.splits)
  from Cons.prems(3) t1 obtain t2 where t2: "st2 dtype = Some t2" and le: "tally_le t1 t2"
    by (metis option.rel_cases option.distinct(1) option.inject)
  have rel: "\<forall>k. rel_option tally_le
                ((st1(dtype \<mapsto> score_detection T1 sim detection t1)) k)
                ((st2(dtype \<mapsto> score_detection T2 sim detection t2)) k)"
    using Cons.prems(3) score_detection_mono [OF Cons.prems(1) le] by simp
  from Cons.IH [OF Cons.prems(1) rec rel,
      of "dict_set e2 dtype (detail_entry sim detection)"]
  obtain st2' e2' where
    "evaluate_detectors detect_fn T2 sim dets
       (st2(dtype \<mapsto> score_detection T2 sim detection t2))
       (dict_set e2 dtype (detail_entry sim detection)) = Inr (st2', e2')"
    "\<forall>k. rel_option tally_le (st1' k) (st2' k)"
    by blast
  then show ?case using a det t2 by auto
qed

lemma evaluate_dataset_mono:
  "T1 \<le> T2 \<Longrightarrow>
   evaluate_dataset detect_fn T1 dets i sims st1 d1 = Inr (st1', d1') \<Longrightarrow>
   \<forall>k. rel_option tally_le (st1 k) (st2 k) \<Longrightarrow>
   \<exists>st2' d2'. evaluate_dataset detect_fn T2 dets i sims st2 d2 = Inr (st2', d2') \<and>
      (\<forall>k. rel_option tally_le (st1' k) (st2' k))"
proof (induction sims arbitrary: i st1 st2 d1 d2)
  case Nil
  then show ?case by simp
next
  case (Cons sim sims)
  from Cons.prems(2) obtain sa ents where
    inner: "evaluate_detectors detect_fn T1 sim dets st1 [] = Inr (sa, ents)"
    and rec: "evaluate_dataset detect_fn T1 dets (i + 1) sims sa
            (d1 @
             [\<lparr>simulation_id = i, record_type = result_type sim,
               true_transition_index = transition_index sim,
               record_duration = duration (config sim),
               record_noise_level = noise_level (config sim),
               detections = ents\<rparr>]) = Inr (st1', d1')"
    by (auto split: sum.splits prod.splits)
  from evaluate_detectors_mono [OF Cons.prems(1) inner Cons.prems(3), of "[]"]
  obtain sb ents2 where
    inner2: "evaluate_detectors detect_fn T2 sim dets st2 [] = Inr (sb, ents2)"
    and rel: "\<forall>k. rel_option tally_le (sa k) (sb k)"
    by blast
  from Cons.IH [OF Cons.prems(1) rec rel] inner2 show ?case by simp
qed

lemma precision_mono:
  assumes "true_positives m1 \<le> true_positives m2"
    and "true_positives m1 + false_positives m1 = true_positives m2 + false_positives m2"
  shows "precision m1 \<le> precision m2"
  using assms by (auto simp: precision_def Let_def divide_right_mono)

lemma frac_mono:
  fixes a b c :: real
  assumes "0 \<le> a" "a \<le> b" "0 \<le> c" "0 < a + c"
  shows "a / (a + c) \<le> b / (b + c)"
proof -
  have pos: "0 < b + c" using assms by simp
  have "a * (b + c) \<le> b * (a + c)"
    using assms by (simp add: algebra_simps mult_right_mono)
  then show ?thesis
    using assms(4) pos by (simp add: divide_le_eq pos_le_divide_eq mult.commute)
qed

lemma recall_mono:
  assumes "true_positives m1 \<le> true_positives m2"
    and "false_negatives m1 = false_negatives m2"
  shows "recall m1 \<le> recall m2"
proof (cases "true_positives m1 + false_negatives m1 > 0")
  case False
  then show ?thesis by (simp add: recall_def Let_def)
next
  case True
  with assms have pos2: "true_positives m2 + false_negatives m2 > 0" by arith
  have "real (true_positives m1) / (real (true_positives m1) + real (false_negatives m2))
        \<le> real (true_positives m2) / (real (true_positives m2) + real (false_negatives m2))"
    using True assms by (intro frac_mono) auto
  with True pos2 assms(2) show ?thesis by (simp add: recall_def Let_def)
qed

text \<open>
  Claim C4. With the detection outcomes and the true transition indices fixed, the
  classification is monotone in the tolerance: for \<open>T1 \<le> T2\<close> a pair that is a true
  positive at \<open>T1\<close> is a true positive at \<open>T2\<close> (with the same error), the run at \<open>T2\<close>
  returns whenever the run at \<open>T1\<close> does, and for every detector type the true positives
  do not decrease, the false positives do not increase, the false negatives stay, and
  precision and recall do not decrease.
\<close>

theorem tolerance_monotone:
  assumes le: "T1 \<le> T2"
    and run: "run_experiment create detect_fn detector_types T1 dataset = Inr r1"
  shows "(\<forall>true_index d e. classify T1 true_index d = TruePositive e \<longrightarrow>
            classify T2 true_index d = TruePositive e) \<and>
         (\<exists>r2. run_experiment create detect_fn detector_types T2 dataset = Inr r2 \<and>
            (\<forall>dtype m1. result_metrics r1 dtype = Some m1 \<longrightarrow>
               (\<exists>m2. result_metrics r2 dtype = Some m2 \<and>
                  true_positives m1 \<le> true_positives m2 \<and>
                  false_positives m2 \<le> false_positives m1 \<and>
                  false_negatives m2 = false_negatives m1 \<and>
                  precision m1 \<le> precision m2 \<and> recall m1 \<le> recall m2)))"
proof
  show "\<forall>true_index d e. classify T1 true_index d = TruePositive e \<longrightarrow>
            classify T2 true_index d = TruePositive e"
    using classify_mono [OF le] by blast
next
  from run obtain st1 detailed where
    ev: "evaluate_dataset detect_fn T1 (init_detectors create detector_types []) 0 dataset
        (init_tallies detector_types) [] = Inr (st1, detailed)"
    and r1: "result_metrics r1 = (\<lambda>dtype. map_option metrics (st1 dtype))"
    by (auto simp: run_experiment_def split: sum.splits prod.splits)
  have init: "\<forall>k. rel_option tally_le (init_tallies detector_types k) (init_tallies detector_types k)"
    by (simp add: init_tallies_def tally_le_def)
  from evaluate_dataset_mono [OF le ev init, of "[]"] obtain st2 detailed2 where
    ev2: "evaluate_dataset detect_fn T2 (init_detectors create detector_types []) 0 dataset
        (init_tallies detector_types) [] = Inr (st2, detailed2)"
    and rel: "\<forall>k. rel_option tally_le (st1 k) (st2 k)"
    by blast
  let ?r2 = "\<lparr>result_metrics = (\<lambda>dtype. map_option metrics (st2 dtype)),
               detailed_results = detailed2\<rparr>"
  have run2: "run_experiment create detect_fn detector_types T2 dataset = Inr ?r2"
    using ev2 by (simp add: run_experiment_def)
  have "\<exists>m2. result_metrics ?r2 dtype = Some m2 \<and>
                  true_positives m1 \<le> true_positives m2 \<and>
                  false_positives m2 \<le> false_positives m1 \<and>
                  false_negatives m2 = false_negatives m1 \<and>
                  precision m1 \<le> precision m2 \<and> recall m1 \<le> recall m2"
    if m1: "result_metrics r1 dtype = Some m1" for dtype m1
  proof -
    from m1 r1 obtain t1 where t1: "st1 dtype = Some t1" "m1 = metrics t1" by auto
    with rel obtain t2 where t2: "st2 dtype = Some t2" and tl: "tally_le t1 t2"
      by (metis option.rel_cases option.distinct(1) option.inject)
    from tl t1(2) have
      a: "true_positives m1 \<le> true_positives (metrics t2)" and
      b: "true_positives m1 + false_positives m1 =
          true_positives (metrics t2) + false_positives (metrics t2)" and
      c: "false_negatives m1 = false_negatives (metrics t2)"
      by (simp_all add: tally_le_def)
    from a b have "false_positives (metrics t2) \<le> false_positives m1" by arith
    with a b c t2 precision_mono [OF a b] recall_mono [OF a c] show ?thesis by simp
  qed
  with run2 show "\<exists>r2. run_experiment create detect_fn detector_types T2 dataset = Inr r2 \<and>
            (\<forall>dtype m1. result_metrics r1 dtype = Some m1 \<longrightarrow>
               (\<exists>m2. result_metrics r2 dtype = Some m2 \<and>
                  true_positives m1 \<le> true_positives m2 \<and>
                  false_positives m2 \<le> false_positives m1 \<and>
                  false_negatives m2 = false_negatives m1 \<and>
                  precision m1 \<le> precision m2 \<and> recall m1 \<le> recall m2))"
    by blast
qed

subsection \<open>Concrete runs\<close>

lemma fixed_run:
  "evaluate_dataset fixed_detect tol (init_detectors fixed_create fixed_types []) 0
     [fixed_sim] (init_tallies fixed_types) [] =
   Inr (fixed_tallies tol, [fixed_record])"
  by (simp add: fixed_detect_def fixed_create_def init_tallies_def fixed_sim_def
      fixed_types_def fixed_tallies_def fixed_record_def fixed_entry_def)

lemma fixed_experiment:
  "run_experiment fixed_create fixed_detect fixed_types tol [fixed_sim] = Inr (fixed_result tol)"
  unfolding run_experiment_def fixed_run fixed_result_def by simp

lemma fixed_metrics_cusum:
  "result_metrics (fixed_result tol) CUSUM =
     Some (metrics (score_detection tol fixed_sim (fixed_detection True (Some 95))
                      (new_tally CUSUM)))"
  by (simp add: fixed_result_def fixed_tallies_def)

theorem detailed_error_field_witness:
  "run_experiment fixed_create fixed_detect fixed_types 50 [fixed_sim] = Inr (fixed_result 50) \<and>
   fixed_record \<in> set (detailed_results (fixed_result 50)) \<and>
   (VARIANCE_RATIO, fixed_entry True (Some 0)) \<in> set (detections fixed_record) \<and>
   entry_detected (fixed_entry True (Some 0)) \<and>
   entry_index (fixed_entry True (Some 0)) = Some 0 \<and>
   entry_error (fixed_entry True (Some 0)) = None \<and>
   (CUSUM, fixed_entry True (Some 95)) \<in> set (detections fixed_record) \<and>
   entry_detected (fixed_entry True (Some 95)) \<and>
   entry_index (fixed_entry True (Some 95)) = Some 95 \<and>
   entry_error (fixed_entry True (Some 95)) = Some (- 5)"
proof -
  have run: "run_experiment fixed_create fixed_detect fixed_types 50 [fixed_sim] =
      Inr (fixed_result 50)"
    by (rule fixed_experiment)
  have r: "fixed_record \<in> set (detailed_results (fixed_result 50))"
    by (simp add: fixed_result_def)
  have e0: "(VARIANCE_RATIO, fixed_entry True (Some 0)) \<in> set (detections fixed_record)"
    and e95: "(CUSUM, fixed_entry True (Some 95)) \<in> set (detections fixed_record)"
    by (simp_all add: fixed_record_def)
  have f0: "entry_detected (fixed_entry True (Some 0))"
    and f95: "entry_detected (fixed_entry True (Some 95))"
    by (simp_all add: fixed_entry_def detail_entry_def fixed_detection_def)
  have i0: "entry_index (fixed_entry True (Some 0)) = Some 0"
    and i95: "entry_index (fixed_entry True (Some 95)) = Some 95"
    by (simp_all add: fixed_entry_def detail_entry_def fixed_detection_def)
  have t: "true_transition_index fixed_record = 100"
    by (simp add: fixed_record_def)
  from detailed_error_field [OF run r e0 f0] i0
  have c0: "entry_error (fixed_entry True (Some 0)) = None" by simp
  from detailed_error_field [OF run r e95 f95] i95 t
  have c95: "entry_error (fixed_entry True (Some 95)) = Some (- 5)" by simp
  from run r e0 e95 f0 f95 i0 i95 c0 c95 show ?thesis by blast
qed

lemma fixed_corpus_returns:
  "\<exists>res. run_experiment fixed_create fixed_detect fixed_types 50 [fixed_sim, far_sim] = Inr res"
  by (simp add: run_experiment_def fixed_detect_def fixed_create_def init_tallies_def
      fixed_types_def)

theorem run_experiment_counts_witness:
  "CUSUM \<in> set fixed_types \<and>
   (\<exists>res m. run_experiment fixed_create fixed_detect fixed_types 50 [fixed_sim, far_sim] = Inr res \<and>
      result_metrics res CUSUM = Some m \<and> true_negatives m = 0 \<and>
      true_positives m + false_positives m + false_negatives m = 2 \<and>
      true_positives m = 1 \<and> false_positives m = 1 \<and> false_negatives m = 0 \<and>
      fired_within_tolerance 50 fixed_sim (fixed_create CUSUM) \<and>
      fired_outside_tolerance 50 far_sim (fixed_create CUSUM))"
proof -
  from fixed_corpus_returns obtain res where
    run: "run_experiment fixed_create fixed_detect fixed_types 50 [fixed_sim, far_sim] = Inr res"
    by blast
  have k: "CUSUM \<in> set fixed_types"
    by (simp add: fixed_types_def)
  have w: "fired_within_tolerance 50 fixed_sim (fixed_create CUSUM)"
    and f: "fired_outside_tolerance 50 far_sim (fixed_create CUSUM)"
    by (simp_all add: fired_within_tolerance_def fired_outside_tolerance_def fixed_create_def
        fixed_detection_def fixed_sim_def far_sim_def)
  have c: "count_pairs (fired_within_tolerance 50) fixed_detect (fixed_create CUSUM)
             [fixed_sim, far_sim] = 1"
    "count_pairs (fired_outside_tolerance 50) fixed_detect (fixed_create CUSUM)
             [fixed_sim, far_sim] = 1"
    "count_pairs did_not_fire fixed_detect (fixed_create CUSUM) [fixed_sim, far_sim] = 0"
    by (simp_all add: count_pairs_def fixed_detect_def fired_within_tolerance_def
        fired_outside_tolerance_def did_not_fire_def fixed_create_def fixed_detection_def
        fixed_sim_def far_sim_def)
  from run_experiment_counts [OF run k] obtain m where
    "result_metrics res CUSUM = Some m" "true_negatives m = 0"
    "true_positives m + false_positives m + false_negatives m = 2"
    "true_positives m = 1" "false_positives m = 1" "false_negatives m = 0"
    unfolding c by auto
  with run k w f show ?thesis by blast
qed

theorem tolerance_monotone_witness:
  "(2::int) \<le> 50 \<and>
   run_experiment fixed_create fixed_detect fixed_types 2 [fixed_sim] = Inr (fixed_result 2) \<and>
   classify 2 100 (fixed_detection True (Some 99)) = TruePositive (- 1) \<and>
   classify 50 100 (fixed_detection True (Some 99)) = TruePositive (- 1) \<and>
   (\<exists>m1. result_metrics (fixed_result 2) CUSUM = Some m1 \<and> true_positives m1 = 0 \<and>
      (\<exists>r2 m2. run_experiment fixed_create fixed_detect fixed_types 50 [fixed_sim] = Inr r2 \<and>
         result_metrics r2 CUSUM = Some m2 \<and>
         true_positives m1 \<le> true_positives m2 \<and>
         false_positives m2 \<le> false_positives m1 \<and>
         false_negatives m2 = false_negatives m1 \<and>
         precision m1 \<le> precision m2 \<and> recall m1 \<le> recall m2))"
proof -
  have le: "(2::int) \<le> 50" by simp
  have run: "run_experiment fixed_create fixed_detect fixed_types 2 [fixed_sim] =
      Inr (fixed_result 2)"
    by (rule fixed_experiment)
  have c1: "classify 2 100 (fixed_detection True (Some 99)) = TruePositive (- 1)"
    by (simp add: classify_def fixed_detection_def)
  note mono = tolerance_monotone [OF le run]
  from mono c1 have c2: "classify 50 100 (fixed_detection True (Some 99)) = TruePositive (- 1)"
    by blast
  obtain m1 where m1: "result_metrics (fixed_result 2) CUSUM = Some m1"
    and tp: "true_positives m1 = 0"
    by (simp add: fixed_metrics_cusum score_detection_def classify_def fixed_detection_def
        fixed_sim_def new_tally_def new_metrics_def)
  from mono m1 obtain r2 m2 where
    "run_experiment fixed_create fixed_detect fixed_types 50 [fixed_sim] = Inr r2"
    "result_metrics r2 CUSUM = Some m2"
    "true_positives m1 \<le> true_positives m2" "false_positives m2 \<le> false_positives m1"
    "false_negatives m2 = false_negatives m1"
    "precision m1 \<le> precision m2" "recall m1 \<le> recall m2"
    by blast
  with le run c1 c2 m1 tp show ?thesis by blast
qed

section \<open>Properties of the detector bank\<close>

subsection \<open>The sustained crossing\<close>


lemma slice_length: "i + s \<le> length xs \<Longrightarrow> length (slice xs i (i + s)) = s"
  by (simp add: slice_def)

lemma valid_values_bools:
  "valid_values (map (\<lambda>b. Some (if b then 1 else 0)) bs) = map (\<lambda>b. if b then 1 else 0) bs"
  by (induction bs) (simp_all add: valid_values_def List.map_filter_simps)

lemma sum_list_bools:
  "sum_list (map (\<lambda>b. if b then 1 else 0 :: real) bs) = real (length (filter (\<lambda>b. b) bs))"
  by (induction bs) simp_all

lemma nanmean_bools:
  "np_nanmean (map (\<lambda>b. Some (if b then 1 else 0)) bs) =
     (if bs = [] then None else Some (real (length (filter (\<lambda>b. b) bs)) / real (length bs)))"
  by (simp add: np_nanmean_def valid_values_bools mean_r_def sum_list_bools)

lemma filter_map_test:
  "length (filter (\<lambda>b. b) (map P xs)) = length (filter P xs)"
  by (induction xs) simp_all

lemma nanmean_bools_map:
  "np_nanmean (map (\<lambda>b. Some (if b then 1 else 0)) (map P xs)) =
     (if xs = [] then None else Some (real (length (filter P xs)) / real (length xs)))"
  using nanmean_bools [of "map P xs"] by (simp only: filter_map_test length_map map_is_Nil_conv)

lemma crossing_test_valid: "crossing_test direction thr x \<Longrightarrow> \<not> isnan x"
  by (cases x) (auto simp: crossing_test_def isnan_def fl_gt_def split: if_splits)

lemma filter_test_le_valid:
  "length (filter (crossing_test direction thr) xs) \<le> length (filter (\<lambda>x. \<not> isnan x) xs)"
proof (induction xs)
  case Nil
  then show ?case by simp
next
  case (Cons x xs)
  then show ?case using crossing_test_valid [of direction thr x] by auto
qed

lemma scan_step:
  assumes "i + s \<le> length sig"
  shows "(\<not> isnan (sig ! i) \<and>
          \<not> length (filter (\<lambda>x. \<not> isnan x) (slice sig i (i + s))) < s div 2 \<and>
          fl_gt (np_nanmean (map (\<lambda>b. Some (if b then 1 else 0))
                   (map (\<lambda>x. if direction = ''below'' then fl_lt x (Some thr)
                               else fl_gt x (Some thr)) (slice sig i (i + s)))))
                (Some (7 / 10)))
         = sustained_at sig thr direction s i"
proof -
  let ?w = "slice sig i (i + s)"
  let ?c = "length (filter (crossing_test direction thr) ?w)"
  let ?v = "length (filter (\<lambda>x. \<not> isnan x) ?w)"
  have len: "length ?w = s" using assms by (rule slice_length)
  have cv: "?c \<le> ?v" by (rule filter_test_le_valid)
  have test: "(\<lambda>x. if direction = ''below'' then fl_lt x (Some thr) else fl_gt x (Some thr))
              = crossing_test direction thr"
    by (simp add: crossing_test_def fun_eq_iff)
  have mean: "fl_gt (np_nanmean (map (\<lambda>b. Some (if b then 1 else 0))
                   (map (crossing_test direction thr) ?w))) (Some (7 / 10))
              = (7 * s < 10 * ?c)"
  proof (cases "s = 0")
    case True
    with len show ?thesis
      by (simp add: np_nanmean_def valid_values_def List.map_filter_simps fl_gt_def)
  next
    case False
    with len have ne: "?w \<noteq> []" by auto
    have "(7 / 10 < real ?c / real s) = (7 * real s < 10 * real ?c)"
      using False by (simp add: field_simps)
    also have "\<dots> = (7 * s < 10 * ?c)"
      by (metis of_nat_less_iff of_nat_mult of_nat_numeral)
    finally show ?thesis
      unfolding nanmean_bools_map using ne len by (simp add: fl_gt_def)
  qed
  have "7 * s < 10 * ?c \<Longrightarrow> \<not> ?v < s div 2"
    using cv by linarith
  with mean show ?thesis unfolding test sustained_at_def by blast
qed

lemma scan_crossing_Cons:
  assumes "j + s \<le> length sig"
  shows "scan_crossing sig thr direction s (j # js) =
     (if sustained_at sig thr direction s j then Some j
      else scan_crossing sig thr direction s js)"
proof -
  let ?A = "isnan (sig ! j)"
  let ?B = "length (filter (\<lambda>x. \<not> isnan x) (slice sig j (j + s))) < s div 2"
  let ?C = "fl_gt (np_nanmean (map (\<lambda>b. Some (if b then 1 else 0))
                   (map (\<lambda>x. if direction = ''below'' then fl_lt x (Some thr)
                               else fl_gt x (Some thr)) (slice sig j (j + s)))))
                (Some (7 / 10))"
  have step: "(\<not> ?A \<and> \<not> ?B \<and> ?C) = sustained_at sig thr direction s j"
    by (rule scan_step [OF assms])
  have unfold: "scan_crossing sig thr direction s (j # js) =
      (if ?A then scan_crossing sig thr direction s js
       else if ?B then scan_crossing sig thr direction s js
       else if ?C then Some j else scan_crossing sig thr direction s js)"
    unfolding scan_crossing.simps Let_def ..
  show ?thesis
  proof (cases "sustained_at sig thr direction s j")
    case True
    with step have "\<not> ?A" "\<not> ?B" "?C" by blast+
    with True show ?thesis unfolding unfold by (simp only: if_True if_False)
  next
    case False
    with step have "?A \<or> ?B \<or> \<not> ?C" by blast
    then show ?thesis unfolding unfold using False
      by (cases ?A; cases ?B; cases ?C) (simp_all only: if_True if_False, blast+)
  qed
qed

lemma scan_crossing_find:
  assumes "\<forall>j \<in> set js. j + s \<le> length sig"
  shows "scan_crossing sig thr direction s js = List.find (sustained_at sig thr direction s) js"
  using assms
proof (induction js)
  case Nil
  then show ?case by simp
next
  case (Cons j js)
  then have j: "j + s \<le> length sig" and rest: "\<forall>k \<in> set js. k + s \<le> length sig" by auto
  show ?case
    unfolding scan_crossing_Cons [OF j] using Cons.IH [OF rest] by simp
qed

lemma find_sustained_crossing_find:
  "find_sustained_crossing sig thr direction s start =
     List.find (sustained_at sig thr direction s) [max start s ..< length sig - s]"
  unfolding find_sustained_crossing_def Let_def
  by (rule scan_crossing_find) auto

lemma find_upt_Some:
  "List.find P [a..<b] = Some i \<Longrightarrow> a \<le> i \<and> i < b \<and> P i \<and> (\<forall>j. a \<le> j \<and> j < i \<longrightarrow> \<not> P j)"
  by (auto simp: find_Some_iff nth_upt) (metis add.commute le_Suc_ex nat_add_left_cancel_less nth_upt less_trans)

lemma find_upt_None:
  "List.find P [a..<b] = None \<Longrightarrow> (\<forall>j. a \<le> j \<and> j < b \<longrightarrow> \<not> P j)"
  by (auto simp: find_None_iff)

lemma slice_set:
  "x \<in> set (slice sig i (i + s)) \<Longrightarrow> \<exists>k. i \<le> k \<and> k < length sig \<and> x = sig ! k"
proof -
  assume "x \<in> set (slice sig i (i + s))"
  then have "x \<in> set (drop i sig)"
    unfolding slice_def by (rule in_set_takeD)
  then obtain m where "m < length (drop i sig)" "x = drop i sig ! m"
    by (auto simp: in_set_conv_nth)
  then have "i \<le> i + m \<and> i + m < length sig \<and> x = sig ! (i + m)"
    by simp
  then show ?thesis by blast
qed

lemma sustained_at_spec:
  assumes lo: "lo \<le> i" and hi: "i + s < length sig"
    and nonan: "nan_free_from lo sig"
    and share: "no_exact_share sig thr direction s lo"
  shows "sustained_at sig thr direction s i = spec_crossing_at sig thr direction s i"
proof -
  let ?w = "slice sig i (i + s)"
  have valid: "\<not> isnan (sig ! k)" if "lo \<le> k" "k < length sig" for k
  proof -
    from that have idx: "k - lo < length (drop lo sig)" by simp
    from that have "drop lo sig ! (k - lo) = sig ! k" by simp
    with nth_mem [OF idx] have "sig ! k \<in> set (drop lo sig)" by simp
    with nonan show ?thesis by (simp add: nan_free_from_def list_all_iff)
  qed
  have "\<forall>x \<in> set ?w. \<not> isnan x"
  proof
    fix x assume "x \<in> set ?w"
    from slice_set [OF this] obtain k where "i \<le> k" "k < length sig" "x = sig ! k" by blast
    with lo valid [of k] show "\<not> isnan x" by simp
  qed
  then have all: "filter (\<lambda>x. \<not> isnan x) ?w = ?w" by simp
  have len: "length ?w = s" using hi by (simp add: slice_def)
  from lo hi have "i \<in> set [lo ..< length sig - s]" by simp
  with share have ne: "10 * passing sig thr direction s i \<noteq> 7 * s"
    by (simp add: no_exact_share_def list_all_iff)
  have here: "\<not> isnan (sig ! i)" using valid [of i] lo hi by simp
  have "spec_crossing_at sig thr direction s i = (7 * s \<le> 10 * passing sig thr direction s i)"
    using hi by (simp add: spec_crossing_at_def Let_def all len passing_def)
  moreover have "sustained_at sig thr direction s i = (7 * s < 10 * passing sig thr direction s i)"
    using here by (simp add: sustained_at_def passing_def)
  ultimately show ?thesis using ne by linarith
qed

text \<open>
  Claim C5, the part that the code has by design. The loop runs over the positions \<open>i\<close>
  with \<open>max start_idx sustain_count \<le> i < len - sustain_count\<close>. On a signal that holds
  no NaN from the first searched position on, and on which the share of passing samples
  is never exactly 70 percent, \<^verbatim>\<open>find_sustained_crossing\<close> returns the first of these
  positions at which at least 70 percent of the \<open>sustain_count\<close> samples from it on pass
  the directional test, and \<^verbatim>\<open>None\<close> exactly when no searched position does.
\<close>

theorem find_sustained_crossing_first:
  assumes nonan: "nan_free_from (max start_idx sustain_count) sig"
    and share: "no_exact_share sig thr direction sustain_count (max start_idx sustain_count)"
  shows
  "(find_sustained_crossing sig thr direction sustain_count start_idx = Some i \<longrightarrow>
      max start_idx sustain_count \<le> i \<and> i + sustain_count < length sig \<and>
      spec_crossing_at sig thr direction sustain_count i \<and>
      (\<forall>j. max start_idx sustain_count \<le> j \<and> j < i \<longrightarrow>
           \<not> spec_crossing_at sig thr direction sustain_count j)) \<and>
   (find_sustained_crossing sig thr direction sustain_count start_idx = None \<longrightarrow>
      (\<forall>j. max start_idx sustain_count \<le> j \<and> j + sustain_count < length sig \<longrightarrow>
           \<not> spec_crossing_at sig thr direction sustain_count j))"
proof (intro conjI impI)
  assume "find_sustained_crossing sig thr direction sustain_count start_idx = Some i"
  then have f: "List.find (sustained_at sig thr direction sustain_count)
       [max start_idx sustain_count ..< length sig - sustain_count] = Some i"
    by (simp add: find_sustained_crossing_find)
  note r = find_upt_Some [OF f]
  from r have lo: "max start_idx sustain_count \<le> i" by blast
  from r have hi: "i + sustain_count < length sig" by linarith
  from lo show "max start_idx sustain_count \<le> i" .
  from hi show "i + sustain_count < length sig" .
  from r sustained_at_spec [OF lo hi nonan share]
  show "spec_crossing_at sig thr direction sustain_count i" by blast
  show "\<forall>j. max start_idx sustain_count \<le> j \<and> j < i \<longrightarrow>
           \<not> spec_crossing_at sig thr direction sustain_count j"
  proof (intro allI impI)
    fix j assume j: "max start_idx sustain_count \<le> j \<and> j < i"
    with hi have "j + sustain_count < length sig" by simp
    from sustained_at_spec [OF _ this nonan share] j r
    show "\<not> spec_crossing_at sig thr direction sustain_count j" by blast
  qed
next
  assume "find_sustained_crossing sig thr direction sustain_count start_idx = None"
  then have f: "List.find (sustained_at sig thr direction sustain_count)
       [max start_idx sustain_count ..< length sig - sustain_count] = None"
    by (simp add: find_sustained_crossing_find)
  note r = find_upt_None [OF f]
  show "\<forall>j. max start_idx sustain_count \<le> j \<and> j + sustain_count < length sig \<longrightarrow>
           \<not> spec_crossing_at sig thr direction sustain_count j"
  proof (intro allI impI)
    fix j assume j: "max start_idx sustain_count \<le> j \<and> j + sustain_count < length sig"
    then have "j < length sig - sustain_count" by linarith
    with r j have "\<not> sustained_at sig thr direction sustain_count j" by blast
    with sustained_at_spec [OF _ _ nonan share] j
    show "\<not> spec_crossing_at sig thr direction sustain_count j" by blast
  qed
qed

text \<open>
  Claim C5 as stated fails on the range of the search: it starts at
  \<open>max start_idx sustain_count\<close>, not at \<open>start_idx\<close>, and it ends before the last full
  window. In the first signal position 0 qualifies and position 1 is returned; in the
  second position 1 qualifies and nothing is returned.
\<close>

theorem find_sustained_crossing_counterexample:
  "find_sustained_crossing [Some 0, Some 0, Some 0] 1 ''below'' 1 0 = Some 1 \<and>
   spec_sustained_crossing [Some 0, Some 0, Some 0] 1 ''below'' 1 0 = Some 0 \<and>
   find_sustained_crossing [Some 9, Some 0] 1 ''below'' 1 1 = None \<and>
   spec_sustained_crossing [Some 9, Some 0] 1 ''below'' 1 1 = Some 1"
  by code_simp

text \<open>
  Outside the hypotheses of the theorem the loop tests
  \<^verbatim>\<open>np.nanmean(check) > 0.7\<close> on the boolean array \<^verbatim>\<open>check\<close>: a share of exactly
  70 percent is not accepted, and a NaN sample, whose comparison is false, is counted
  with the samples that fail.
\<close>

lemma find_sustained_crossing_share_and_nan:
  "find_sustained_crossing exact_70_signal 1 ''below'' 10 10 = None \<and>
   spec_sustained_crossing exact_70_signal 1 ''below'' 10 10 = Some 10 \<and>
   find_sustained_crossing nan_signal 1 ''below'' 2 2 = None \<and>
   spec_sustained_crossing nan_signal 1 ''below'' 2 2 = Some 2"
  by code_simp


subsection \<open>The variance-ratio detector and the result record\<close>





lemma step_signal_run:
  "VarianceRatioDetector_detect 2 2 (4 / 10) 1 step_signal = Inr step_result"
  by code_simp


text \<open>
  Claim C9. For each of the seven detectors and every input signal, the result that
  \<^verbatim>\<open>detect\<close> returns has a detection index iff \<^verbatim>\<open>detected\<close> is true.
\<close>

theorem detect_index_iff_detected:
  assumes "detect d sig = Inr r"
  shows "(detection_index r \<noteq> None) = detected r"
proof (cases d)
  case (VarianceRatioDetector w bw thr s)
  with assms show ?thesis
    by (auto simp: VarianceRatioDetector_detect_def Let_def split: if_splits)
next
  case (VarianceDerivativeDetector w dw thr)
  with assms show ?thesis
    by (auto simp: VarianceDerivativeDetector_detect_def Let_def no_detection_def
        split: option.splits if_splits)
next
  case (VarianceInflectionDetector w sw thr)
  with assms show ?thesis
    by (auto simp: VarianceInflectionDetector_detect_def Let_def no_detection_def
        split: sum.splits option.splits if_splits)
next
  case (RollingZScoreDetector w zw thr s)
  with assms show ?thesis
    by (auto simp: RollingZScoreDetector_detect_def Let_def no_detection_def
        split: option.splits)
next
  case (CUSUMDetector w drift thr)
  with assms show ?thesis
    by (auto simp: CUSUMDetector_detect_def Let_def no_detection_def
        split: option.splits if_splits)
next
  case (ChangePointDetector w ms thr)
  with assms show ?thesis
    by (auto simp: ChangePointDetector_detect_def Let_def no_detection_def
        split: option.splits if_splits)
next
  case (EnsembleDetector w thr ws)
  with assms show ?thesis
    by (auto simp: EnsembleDetector_detect_def Let_def
        split: sum.splits option.splits if_splits)
qed


theorem find_sustained_crossing_first_witness:
  "nan_free_from (max 0 1) [Some 0, Some 0, Some 0] \<and>
   no_exact_share [Some 0, Some 0, Some 0] 1 ''below'' 1 (max 0 1) \<and>
   find_sustained_crossing [Some 0, Some 0, Some 0] 1 ''below'' 1 0 = Some 1 \<and>
   max 0 1 \<le> (1::nat) \<and> 1 + 1 < length [Some (0::real), Some 0, Some 0] \<and>
   spec_crossing_at [Some 0, Some 0, Some 0] 1 ''below'' 1 1"
proof -
  have nonan: "nan_free_from (max 0 1) [Some 0, Some 0, Some 0]"
    by code_simp
  have share: "no_exact_share [Some 0, Some 0, Some 0] 1 ''below'' 1 (max 0 1)"
    by code_simp
  have run: "find_sustained_crossing [Some 0, Some 0, Some 0] 1 ''below'' 1 0 = Some 1"
    by code_simp
  from find_sustained_crossing_first
         [of 0 1 "[Some 0, Some 0, Some 0]" 1 "''below''" 1, OF nonan share] run
  have "spec_crossing_at [Some 0, Some 0, Some 0] 1 ''below'' 1 1" by blast
  with nonan share run show ?thesis by simp
qed


theorem detect_index_iff_detected_witness:
  "detect (VarianceRatioDetector 2 2 (4 / 10) 1) step_signal = Inr step_result \<and>
   detection_index step_result \<noteq> None \<and> detected step_result"
proof -
  have run: "detect (VarianceRatioDetector 2 2 (4 / 10) 1) step_signal = Inr step_result"
    unfolding detect.simps by (rule step_signal_run)
  have "detected step_result" by (simp add: step_result_def)
  with detect_index_iff_detected [OF run] run show ?thesis by simp
qed

subsection \<open>The ensemble\<close>






subsection \<open>The traces of the detectors and a firing ensemble\<close>


lemma compute_rolling_variance_length [simp]:
  "length (compute_rolling_variance w wo sig) = length sig"
  by (simp add: compute_rolling_variance_def Let_def)

lemma variance_ratio_length [simp]:
  "length (variance_ratio window baseline_window sig) = length sig"
  by (simp add: variance_ratio_def Let_def)


lemma variance_derivative_length [simp]:
  "length (variance_derivative window derivative_window sig) = length sig"
  unfolding variance_derivative_def Let_def by simp


lemma rolling_zscore_length [simp]:
  "length (rolling_zscore window zscore_window sig) = length sig"
  unfolding rolling_zscore_def Let_def by simp



lemma change_point_llr_length [simp]:
  "length (change_point_llr window min_segment variance) = length variance"
  unfolding change_point_llr_def Let_def by simp

















subsection \<open>Short signals\<close>













































section \<open>Properties of the simulators\<close>




lemma np_linspace_length [simp]: "length (np_linspace a b n) = n"
  by (simp add: np_linspace_def)

lemma compute_variance_trajectory_length [simp]:
  "length (compute_variance_trajectory xs w) = length xs"
  by (simp add: compute_variance_trajectory_def Let_def)

lemma np_diff_length [simp]: "length (np_diff f) = length f - 1"
  by (simp add: np_diff_def)



























subsection \<open>Seed determinism\<close>

lemma reseed_Some: "seed cfg = Some s \<Longrightarrow> reseed R cfg g = seed_fn R s"
  by (simp add: reseed_def)

text \<open>
  Claim C1. With a seed in the configuration, \<^verbatim>\<open>simulate\<close> does not depend on the
  state of the random generator it is called in: any two calls with the same
  configuration return the same result (the same state, control-parameter and variance
  arrays and the same transition index, or the same exception) and leave the generator
  in the same state.
\<close>

theorem simulate_deterministic:
  assumes "seed cfg \<noteq> None"
  shows "simulate R cfg g1 = simulate R cfg g2"
proof -
  from assms obtain s where s: "seed cfg = Some s" by blast
  have r1: "reseed R cfg g1 = seed_fn R s" and r2: "reseed R cfg g2 = seed_fn R s"
    using s by (simp_all add: reseed_Some)
  have "simulate_pitchfork R cfg g1 = simulate_pitchfork R cfg g2"
    by (simp only: simulate_pitchfork_def r1 r2)
  moreover have "simulate_saddle_node R cfg g1 = simulate_saddle_node R cfg g2"
    by (simp only: simulate_saddle_node_def r1 r2)
  moreover have "simulate_hopf R cfg g1 = simulate_hopf R cfg g2"
    by (simp only: simulate_hopf_def r1 r2)
  moreover have "simulate_transcritical R cfg g1 = simulate_transcritical R cfg g2"
    by (simp only: simulate_transcritical_def r1 r2)
  moreover have "simulate_nucleation R cfg g1 = simulate_nucleation R cfg g2"
    by (simp only: simulate_nucleation_def r1 r2)
  moreover have "simulate_commitment R cfg g1 = simulate_commitment R cfg g2"
    by (simp only: simulate_commitment_def r1 r2)
  ultimately show ?thesis by (simp only: simulate_def)
qed

theorem simulate_deterministic_witness:
  "seed (nucleation_config 1000 (6 / 10)) = Some 42 \<and>
   simulate counting_random (nucleation_config 1000 (6 / 10)) 0 =
   simulate counting_random (nucleation_config 1000 (6 / 10)) 1"
proof -
  have s: "seed (nucleation_config 1000 (6 / 10)) = Some 42"
    by (simp add: nucleation_config_def)
  then have "seed (nucleation_config 1000 (6 / 10)) \<noteq> None" by simp
  from simulate_deterministic [OF this, of counting_random 0 1] s show ?thesis by simp
qed

text \<open>The seed is needed: an unseeded simulation reads the ambient generator state.\<close>

lemma unseeded_simulate_differs:
  "fst (simulate echo_random unseeded_config 0) \<noteq> fst (simulate echo_random unseeded_config 1)"
proof -
  have fti: "find_transition_index [Some v] ''derivative'' 30 (1 / 10) = Inr 0" for v
    by (simp add: find_transition_index_def np_diff_def)
  have "fst (simulate echo_random unseeded_config g) =
        Inr \<lparr>time = [0], state = [Some (real_of_int g * (1 / 100))],
             control_param = np_linspace (- 1) 1 1, transition_index = 0,
             result_type = PITCHFORK, config = unseeded_config,
             variance_trajectory = [None]\<rparr>" for g
    by (simp add: simulate_def simulate_pitchfork_def unseeded_config_def echo_random_def
        reseed_def fti finish_simulation_def compute_variance_trajectory_def)
  then show ?thesis by simp
qed

end
